theory Spec2Isabelle
  imports Complex_Main
begin

section \<open>Python values and the primitives the interpreter relies on\<close>

text \<open>
  The values that flow through the interpreter are Python objects: \<open>None\<close>, \<open>int\<close>
  (unbounded), \<open>float\<close>, \<open>complex\<close> (a power of a negative base may produce one)
  and \<open>str\<close>. \<open>PFloat x\<close> is the finite float whose value is the real number \<open>x\<close>;
  the infinities and NaN have no value in this model. A \<open>bool\<close> is the \<open>int\<close> 0 or 1.
\<close>

datatype pyval = PNone | PInt int | PFloat real | PComplex complex | PStr string

datatype pyexc = TypeError | ZeroDivisionError | OverflowError | ValueError | EOFError

fun is_int :: "pyval \<Rightarrow> bool" where
  "is_int (PInt _) = True"
| "is_int _ = False"

fun is_float :: "pyval \<Rightarrow> bool" where
  "is_float (PFloat _) = True"
| "is_float _ = False"

fun is_complex :: "pyval \<Rightarrow> bool" where
  "is_complex (PComplex _) = True"
| "is_complex _ = False"

fun is_str :: "pyval \<Rightarrow> bool" where
  "is_str (PStr _) = True"
| "is_str _ = False"

definition is_real_num :: "pyval \<Rightarrow> bool" where
  "is_real_num v = (is_int v \<or> is_float v)"

definition is_num :: "pyval \<Rightarrow> bool" where
  "is_num v = (is_int v \<or> is_float v \<or> is_complex v)"

fun int_of :: "pyval \<Rightarrow> int" where
  "int_of (PInt i) = i"
| "int_of _ = 0"

fun real_of :: "pyval \<Rightarrow> real" where
  "real_of (PInt i) = of_int i"
| "real_of (PFloat x) = x"
| "real_of _ = 0"

fun complex_of :: "pyval \<Rightarrow> complex" where
  "complex_of (PComplex z) = z"
| "complex_of v = of_real (real_of v)"

fun str_of :: "pyval \<Rightarrow> string" where
  "str_of (PStr s) = s"
| "str_of _ = []"

text \<open>
  What Python itself computes is a parameter of the model, not a definition of it. Three
  builtins read text: \<open>eval\<close> (any expression), \<open>float\<close> and \<open>int\<close> on a string;
  \<open>None\<close> is a raised exception. Arithmetic with floats follows the machine's doubles,
  with their rounding and their range: \<open>py_float_arith\<close> is the operator of module
  \<open>operator\<close> on two numbers wherever the result is not an int computed exactly (an
  operand is a float or a complex, or the operation is the quotient of two ints or an int
  to a negative int power); it returns the value or the exception that Python raises,
  \<open>ZeroDivisionError\<close> and \<open>OverflowError\<close> among them. \<open>py_float_int\<close> is \<open>float\<close>
  on an int, \<open>None\<close> when the int is beyond the range of floats (\<open>OverflowError\<close>).
\<close>

datatype pyop = OpAdd | OpSub | OpMul | OpTruediv | OpPow

record python =
  py_eval :: "string \<Rightarrow> pyval option"
  py_float_str :: "string \<Rightarrow> real option"
  py_int_str :: "string \<Rightarrow> int option"
  py_float_arith :: "pyop \<Rightarrow> pyval \<Rightarrow> pyval \<Rightarrow> pyexc + pyval"
  py_float_int :: "int \<Rightarrow> real option"

text \<open>\<open>operator.add\<close>, \<open>operator.sub\<close>, \<open>operator.mul\<close>: two ints give the exact int;
  \<open>+\<close> concatenates two strings, \<open>*\<close> repeats a string an int number of times; every
  pairing of a number with a string or \<open>None\<close> raises \<open>TypeError\<close>.\<close>

definition py_add :: "python \<Rightarrow> pyval \<Rightarrow> pyval \<Rightarrow> pyexc + pyval" where
  "py_add P a b =
     (if is_int a \<and> is_int b then Inr (PInt (int_of a + int_of b))
      else if is_num a \<and> is_num b then py_float_arith P OpAdd a b
      else if is_str a \<and> is_str b then Inr (PStr (str_of a @ str_of b))
      else Inl TypeError)"

definition py_sub :: "python \<Rightarrow> pyval \<Rightarrow> pyval \<Rightarrow> pyexc + pyval" where
  "py_sub P a b =
     (if is_int a \<and> is_int b then Inr (PInt (int_of a - int_of b))
      else if is_num a \<and> is_num b then py_float_arith P OpSub a b
      else Inl TypeError)"

definition py_mul :: "python \<Rightarrow> pyval \<Rightarrow> pyval \<Rightarrow> pyexc + pyval" where
  "py_mul P a b =
     (if is_int a \<and> is_int b then Inr (PInt (int_of a * int_of b))
      else if is_num a \<and> is_num b then py_float_arith P OpMul a b
      else if is_str a \<and> is_int b then Inr (PStr (concat (replicate (nat (int_of b)) (str_of a))))
      else if is_int a \<and> is_str b then Inr (PStr (concat (replicate (nat (int_of a)) (str_of b))))
      else Inl TypeError)"

text \<open>\<open>operator.truediv\<close>: the quotient of two numbers is never an int.\<close>

definition py_truediv :: "python \<Rightarrow> pyval \<Rightarrow> pyval \<Rightarrow> pyexc + pyval" where
  "py_truediv P a b =
     (if is_num a \<and> is_num b then py_float_arith P OpTruediv a b
      else Inl TypeError)"

text \<open>\<open>operator.pow\<close>: an int to a non-negative int is the exact int.\<close>

definition py_pow :: "python \<Rightarrow> pyval \<Rightarrow> pyval \<Rightarrow> pyexc + pyval" where
  "py_pow P a b =
     (if is_int a \<and> is_int b \<and> 0 \<le> int_of b then Inr (PInt (int_of a ^ nat (int_of b)))
      else if is_num a \<and> is_num b then py_float_arith P OpPow a b
      else Inl TypeError)"

text \<open>\<open>==\<close> never raises: numbers compare by value across the numeric types, strings
  with strings, \<open>None\<close> with \<open>None\<close>; anything else is unequal.\<close>

definition py_eq :: "pyval \<Rightarrow> pyval \<Rightarrow> bool" where
  "py_eq a b =
     (if is_num a \<and> is_num b then complex_of a = complex_of b
      else if is_str a \<and> is_str b then str_of a = str_of b
      else (a = PNone \<and> b = PNone))"

text \<open>\<open><\<close> and \<open><=\<close> order ints and floats by value and strings lexicographically by
  code point, and raise \<open>TypeError\<close> otherwise.\<close>

fun str_lt :: "string \<Rightarrow> string \<Rightarrow> bool" where
  "str_lt [] [] = False"
| "str_lt [] (y # ys) = True"
| "str_lt (x # xs) [] = False"
| "str_lt (x # xs) (y # ys) =
     (if x = y then str_lt xs ys else (of_char x :: nat) < of_char y)"

definition py_lt :: "pyval \<Rightarrow> pyval \<Rightarrow> pyexc + bool" where
  "py_lt a b =
     (if is_real_num a \<and> is_real_num b then Inr (real_of a < real_of b)
      else if is_str a \<and> is_str b then Inr (str_lt (str_of a) (str_of b))
      else Inl TypeError)"

definition py_le :: "pyval \<Rightarrow> pyval \<Rightarrow> pyexc + bool" where
  "py_le a b =
     (if is_real_num a \<and> is_real_num b then Inr (real_of a \<le> real_of b)
      else if is_str a \<and> is_str b then Inr (str_of a = str_of b \<or> str_lt (str_of a) (str_of b))
      else Inl TypeError)"

text \<open>\<open>int(x)\<close> and \<open>float(x)\<close> on a number; \<open>int\<close> truncates towards zero.\<close>

definition trunc :: "real \<Rightarrow> int" where
  "trunc x = (if 0 \<le> x then \<lfloor>x\<rfloor> else \<lceil>x\<rceil>)"

definition py_int :: "python \<Rightarrow> pyval \<Rightarrow> pyexc + pyval" where
  "py_int P v =
     (case v of
        PInt i \<Rightarrow> Inr (PInt i)
      | PFloat x \<Rightarrow> Inr (PInt (trunc x))
      | PStr s \<Rightarrow> (case py_int_str P s of None \<Rightarrow> Inl ValueError | Some i \<Rightarrow> Inr (PInt i))
      | _ \<Rightarrow> Inl TypeError)"

definition py_float :: "python \<Rightarrow> pyval \<Rightarrow> pyexc + pyval" where
  "py_float P v =
     (case v of
        PInt i \<Rightarrow> (case py_float_int P i of None \<Rightarrow> Inl OverflowError | Some x \<Rightarrow> Inr (PFloat x))
      | PFloat x \<Rightarrow> Inr (PFloat x)
      | PStr s \<Rightarrow> (case py_float_str P s of None \<Rightarrow> Inl ValueError | Some x \<Rightarrow> Inr (PFloat x))
      | _ \<Rightarrow> Inl TypeError)"

subsection \<open>Strings\<close>

text \<open>\<open>str.lower\<close> on the characters that can spell a mnemonic, \<open>str.split(' ')\<close>,
  \<open>' '.join\<close> and \<open>readlines\<close> (every line keeps its newline).\<close>

definition lower_char :: "char \<Rightarrow> char" where
  "lower_char c =
     (let n = (of_char c :: nat) in if 65 \<le> n \<and> n \<le> 90 then char_of (n + 32) else c)"

definition lower :: "string \<Rightarrow> string" where
  "lower s = map lower_char s"

fun split_sp :: "string \<Rightarrow> string list" where
  "split_sp [] = [[]]"
| "split_sp (c # cs) =
     (if c = CHR '' '' then [] # split_sp cs
      else (case split_sp cs of [] \<Rightarrow> [[c]] | w # ws \<Rightarrow> (c # w) # ws))"

fun join_sp :: "string list \<Rightarrow> string" where
  "join_sp [] = []"
| "join_sp [w] = w"
| "join_sp (w # ws) = w @ '' '' @ join_sp ws"

fun readlines :: "string \<Rightarrow> string list" where
  "readlines [] = []"
| "readlines (c # cs) =
     (if c = CHR 0x0A then [c] # readlines cs
      else (case readlines cs of [] \<Rightarrow> [[c]] | l # ls \<Rightarrow> (c # l) # ls))"

section \<open>The interpreter's data\<close>

datatype vkind = VARIABLE_NUMERIC | VARIABLE_STRING_CONST

datatype run_status =
  RUNTIME_STATUS_RUNNING | RUNTIME_STATUS_PREPARING | RUNTIME_STATUS_QUITED | RUNTIME_STATUS_ERROR

text \<open>A \<open>Variable\<close> object; \<open>v_value = PNone\<close> until the first successful \<open>set\<close>.\<close>

record variable =
  v_name :: string
  v_type :: vkind
  v_value :: pyval

definition Variable :: "string \<Rightarrow> vkind \<Rightarrow> variable" where
  "Variable n t = \<lparr>v_name = n, v_type = t, v_value = PNone\<rparr>"

text \<open>An instruction is a mnemonic with its argument tokens; \<open>None\<close> is \<open>EOF\<close>.\<close>

type_synonym instr = "string \<times> string list"

text \<open>The objects a package pool can hold, and the initial target of the pointer.\<close>

datatype object = NullPointerTraceback | display | ftc | wrap | nInput | breakpoint

text \<open>
  What reaches the output surface: a diagnostic (class name and line number of the
  \<open>SetaException\<close>; the message text, the file name and the colour codes are presentation),
  a printed value, or the dump of \<open>breakpoint\<close>.
\<close>

datatype out_item = Diagnostic string int | Printed pyval | BreakpointDump int

record runtime =
  status :: run_status
  namespace :: "string \<rightharpoonup> variable"
  cur_lineno :: int
  cur_code :: "instr option"
  ams :: pyval
  ifs :: int
  ptr :: "object option"
  packages :: "string \<rightharpoonup> (string \<rightharpoonup> object)"
  stdout :: "out_item list"
  stdin :: "string list"

text \<open>The instruction stream (\<open>SetaStringOperationCode\<close>): the lines read and the index
  of the next one.\<close>

record soc =
  text_lines :: "string list"
  pointer :: nat

subsection \<open>Reporting\<close>

text \<open>\<open>SetaRuntime.error\<close>: print the diagnostic and set the status; nothing unwinds.\<close>

definition error :: "string \<Rightarrow> int \<Rightarrow> runtime \<Rightarrow> runtime" where
  "error clsname lineno st =
     st\<lparr>stdout := stdout st @ [Diagnostic clsname lineno], status := RUNTIME_STATUS_ERROR\<rparr>"

definition error_here :: "string \<Rightarrow> runtime \<Rightarrow> runtime" where
  "error_here clsname st = error clsname (cur_lineno st) st"

subsection \<open>Variables and the namespace\<close>

text \<open>\<open>Variable.set\<close>: a string is accepted by a constant-string variable only, any
  other value by a numeric variable only; a refusal reports \<open>ValueException\<close>.\<close>

definition Variable_set :: "variable \<Rightarrow> pyval \<Rightarrow> runtime \<Rightarrow> bool \<times> variable \<times> runtime" where
  "Variable_set var val st =
     (if is_str val then
        (if v_type var = VARIABLE_STRING_CONST then (True, var\<lparr>v_value := val\<rparr>, st)
         else (False, var, error_here ''ValueException'' st))
      else
        (if v_type var = VARIABLE_NUMERIC then (True, var\<lparr>v_value := val\<rparr>, st)
         else (False, var, error_here ''ValueException'' st)))"

definition NamespaceSearch :: "string \<Rightarrow> runtime \<Rightarrow> variable option" where
  "NamespaceSearch n st = namespace st n"

definition NamespaceInput :: "variable \<Rightarrow> runtime \<Rightarrow> runtime" where
  "NamespaceInput var st = st\<lparr>namespace := (namespace st)(v_name var \<mapsto> var)\<rparr>"

definition PackageSearch :: "string \<Rightarrow> runtime \<Rightarrow> (string \<rightharpoonup> object) option" where
  "PackageSearch n st = packages st n"

definition BuiltinsPackage :: "string \<rightharpoonup> object" where
  "BuiltinsPackage =
     [''display'' \<mapsto> display, ''ftc'' \<mapsto> ftc, ''wrap'' \<mapsto> wrap, ''nInput'' \<mapsto> nInput,
      ''breakpoint'' \<mapsto> breakpoint]"

text \<open>\<open>SetaRuntime.__init__\<close>, with the text waiting on the input surface.\<close>

definition SetaRuntime :: "string list \<Rightarrow> runtime" where
  "SetaRuntime inp =
     \<lparr>status = RUNTIME_STATUS_RUNNING, namespace = Map.empty, cur_lineno = 0, cur_code = None,
      ams = PInt 0, ifs = 0, ptr = Some NullPointerTraceback,
      packages = [''builtins'' \<mapsto> BuiltinsPackage], stdout = [], stdin = inp\<rparr>"

subsection \<open>Recognisers of class \<open>Seta\<close>\<close>

definition requireInt :: "python \<Rightarrow> string \<Rightarrow> pyval option" where
  "requireInt P i =
     (case py_eval P i of None \<Rightarrow> None | Some r \<Rightarrow> if \<not> is_int r then None else Some r)"

definition requireReal :: "python \<Rightarrow> string \<Rightarrow> pyval option" where
  "requireReal P r =
     (case py_eval P r of None \<Rightarrow> None
      | Some v \<Rightarrow> if is_int v \<or> is_float v then Some v else None)"

definition ident_char :: "char \<Rightarrow> bool" where
  "ident_char c =
     (let n = (of_char c :: nat) in
      (97 \<le> n \<and> n \<le> 122) \<or> (65 \<le> n \<and> n \<le> 90) \<or> c \<in> set ''0123456789_#'')"

fun ident_chars :: "string \<Rightarrow> bool" where
  "ident_chars [] = True"
| "ident_chars (c # cs) = (if ident_char c then ident_chars cs else False)"

definition requireIdentifier :: "string \<Rightarrow> bool" where
  "requireIdentifier i =
     (if i = [] then False
      else if \<not> ident_chars i then False
      else if hd i \<in> set ''0123456789#'' then False
      else True)"

subsection \<open>The instruction stream\<close>

text \<open>\<open>SetaStringOperationCode.precheck\<close>: 0 passes, 1 wrong flag, 2 invalid version,
  3 version too high, 4 wrong token count, 5 no first line. \<open>Seta.version\<close> is 1.0.\<close>

definition Seta_version :: real where
  "Seta_version = 1"

definition precheck :: "python \<Rightarrow> soc \<Rightarrow> nat \<times> soc" where
  "precheck P s =
     (if pointer s < length (text_lines s) then
        (let line1 = text_lines s ! pointer s; s' = s\<lparr>pointer := pointer s + 1\<rparr> in
         if line1 \<noteq> [] then
           (let l = split_sp (butlast line1) in
            if length l = 2 then
              (if l ! 0 \<noteq> ''SETA-SOC'' then (1, s')
               else (case py_float_str P (l ! 1) of
                       None \<Rightarrow> (2, s')
                     | Some version \<Rightarrow> if version > Seta_version then (3, s') else (0, s')))
            else (4, s'))
         else (5, s'))
      else (5, s))"

text \<open>\<open>SetaStringOperationCode.instruction\<close>: the next line as an instruction.\<close>

definition instruction :: "soc \<Rightarrow> instr option \<times> soc" where
  "instruction s =
     (if pointer s < length (text_lines s) then
        (let l = text_lines s ! pointer s; s' = s\<lparr>pointer := pointer s + 1\<rparr> in
         if l = [] then (None, s')
         else if l = [CHR 0x0A] \<or> l = [CHR 0x0A, CHR 0x0D] then (Some (''emp'', []), s')
         else (let ws = split_sp (butlast l) in (Some (hd ws, tl ws), s')))
      else (None, s))"

text \<open>\<open>SetaStringOperationCode.__init__\<close>: a failed precheck is reported at line 1.\<close>

definition SetaStringOperationCode :: "python \<Rightarrow> string \<Rightarrow> runtime \<Rightarrow> soc \<times> runtime" where
  "SetaStringOperationCode P src st =
     (let (code, s) = precheck P \<lparr>text_lines = readlines src, pointer = 0\<rparr> in
      if code \<noteq> 0 then (s, error ''PrecheckException'' 1 st) else (s, st))"

text \<open>\<open>SetaRuntime.setSupport\<close>: the first instruction is fetched, at line 2.\<close>

definition setSupport :: "soc \<Rightarrow> runtime \<Rightarrow> soc \<times> runtime" where
  "setSupport s st =
     (let (i, s') = instruction s in (s', st\<lparr>cur_lineno := 2, cur_code := i\<rparr>))"

text \<open>\<open>Seta.__init__\<close> on a file that exists and opens, in mode \<open>SETA_SOC\<close>; \<open>src\<close> is
  its content and \<open>inp\<close> the lines waiting on the input surface.\<close>

definition Seta :: "python \<Rightarrow> string \<Rightarrow> string list \<Rightarrow> soc \<times> runtime" where
  "Seta P src inp =
     (let (s, st) = SetaStringOperationCode P src (SetaRuntime inp) in setSupport s st)"

section \<open>Operations on variables (class \<open>Operation\<close>)\<close>

text \<open>Each helper refuses a non-numeric variable with \<open>TypeException\<close> and returns
  \<open>None\<close>; \<open>div\<close> and \<open>power\<close> add their \<open>MathException\<close> guards.\<close>

definition Operation_guard ::
  "variable \<Rightarrow> variable \<Rightarrow> runtime \<Rightarrow> ((pyexc + pyval) \<times> runtime) \<Rightarrow> (pyexc + pyval) \<times> runtime" where
  "Operation_guard arg1 arg2 st k =
     (if v_type arg1 \<noteq> VARIABLE_NUMERIC then (Inr PNone, error_here ''TypeException'' st)
      else if v_type arg2 \<noteq> VARIABLE_NUMERIC then (Inr PNone, error_here ''TypeException'' st)
      else k)"

definition Operation_add ::
  "python \<Rightarrow> variable \<Rightarrow> variable \<Rightarrow> runtime \<Rightarrow> (pyexc + pyval) \<times> runtime" where
  "Operation_add P arg1 arg2 st =
     Operation_guard arg1 arg2 st (py_add P (v_value arg1) (v_value arg2), st)"

definition Operation_sub ::
  "python \<Rightarrow> variable \<Rightarrow> variable \<Rightarrow> runtime \<Rightarrow> (pyexc + pyval) \<times> runtime" where
  "Operation_sub P arg1 arg2 st =
     Operation_guard arg1 arg2 st (py_sub P (v_value arg1) (v_value arg2), st)"

definition Operation_mul ::
  "python \<Rightarrow> variable \<Rightarrow> variable \<Rightarrow> runtime \<Rightarrow> (pyexc + pyval) \<times> runtime" where
  "Operation_mul P arg1 arg2 st =
     Operation_guard arg1 arg2 st (py_mul P (v_value arg1) (v_value arg2), st)"

definition Operation_div ::
  "python \<Rightarrow> variable \<Rightarrow> variable \<Rightarrow> runtime \<Rightarrow> (pyexc + pyval) \<times> runtime" where
  "Operation_div P arg1 arg2 st =
     Operation_guard arg1 arg2 st
       (if py_eq (v_value arg2) (PInt 0) then (Inr PNone, error_here ''MathException'' st)
        else (py_truediv P (v_value arg1) (v_value arg2), st))"

definition Operation_power ::
  "python \<Rightarrow> variable \<Rightarrow> variable \<Rightarrow> runtime \<Rightarrow> (pyexc + pyval) \<times> runtime" where
  "Operation_power P arg1 arg2 st =
     Operation_guard arg1 arg2 st
       (if py_eq (v_value arg1) (v_value arg2) \<and> py_eq (v_value arg2) (PInt 0)
        then (Inr PNone, error_here ''MathException'' st)
        else (py_pow P (v_value arg1) (v_value arg2), st))"

text \<open>
  Modelled from the spec: module \<open>seta_operator\<close>, which \<open>com_if\<close> imports for its six
  comparisons, is not among the sources. The spec says a comparison "compares raw resolved
  values directly" and that "incomparable types" fail; so each function is the Python
  operator of its name on the two values, and a raised exception is \<open>Inl\<close>.
\<close>

definition seta_operator :: "string \<Rightarrow> (pyval \<Rightarrow> pyval \<Rightarrow> pyexc + bool) option" where
  "seta_operator cmp =
     (if cmp = ''>'' then Some (\<lambda>a b. py_lt b a)
      else if cmp = ''<'' then Some (\<lambda>a b. py_lt a b)
      else if cmp = ''='' then Some (\<lambda>a b. Inr (py_eq a b))
      else if cmp = ''<='' then Some (\<lambda>a b. py_le a b)
      else if cmp = ''>='' then Some (\<lambda>a b. py_le b a)
      else if cmp = ''!='' then Some (\<lambda>a b. Inr (\<not> py_eq a b))
      else None)"

section \<open>The builtin routines\<close>

text \<open>A routine called with the wrong number of arguments raises \<open>TypeError\<close>. A
  handler or routine returns the exception it raised, if any, with the state as it left it.\<close>

definition B_NullPointerTraceback :: "string list \<Rightarrow> runtime \<Rightarrow> pyexc option \<times> runtime" where
  "B_NullPointerTraceback args st =
     (case args of
        [] \<Rightarrow> (None, error_here ''NullPointerException'' st)
      | _ \<Rightarrow> (Some TypeError, st))"

definition B_display :: "string list \<Rightarrow> runtime \<Rightarrow> pyexc option \<times> runtime" where
  "B_display args st =
     (case args of
        [var] \<Rightarrow>
          (if \<not> requireIdentifier var then (None, error_here ''ArgumentException'' st)
           else (case NamespaceSearch var st of
                   None \<Rightarrow> (None, error_here ''ArgumentException'' st)
                 | Some v \<Rightarrow> (None, st\<lparr>stdout := stdout st @ [Printed (v_value v)]\<rparr>)))
      | _ \<Rightarrow> (Some TypeError, st))"

definition B_wrap :: "python \<Rightarrow> string list \<Rightarrow> runtime \<Rightarrow> pyexc option \<times> runtime" where
  "B_wrap P args st =
     (if length args > 1 then (Some TypeError, st)
      else (case requireInt P (case args of [] \<Rightarrow> ''1'' | l # _ \<Rightarrow> l) of
              None \<Rightarrow> (None, error_here ''ArgumentException'' st)
            | Some lines \<Rightarrow>
                if int_of lines \<le> 0 then (None, error_here ''ArgumentException'' st)
                else (None, st\<lparr>stdout := stdout st @
                        [Printed (PStr (replicate (nat (int_of lines)) (CHR 0x0A)))]\<rparr>)))"

definition B_ftc :: "python \<Rightarrow> string list \<Rightarrow> runtime \<Rightarrow> pyexc option \<times> runtime" where
  "B_ftc P args st =
     (case args of
        [arg, tar] \<Rightarrow>
          (if \<not> requireIdentifier arg then (None, error_here ''ArgumentException'' st)
           else (case NamespaceSearch arg st of
                   None \<Rightarrow> (None, error_here ''VariableException'' st)
                 | Some var \<Rightarrow>
                     if v_type var \<noteq> VARIABLE_NUMERIC then (None, error_here ''TypeException'' st)
                     else (case (if tar = ''integer'' then Some (py_int P)
                                 else if tar = ''float'' then Some (py_float P) else None) of
                             None \<Rightarrow> (None, error_here ''ArgumentException'' st)
                           | Some func \<Rightarrow>
                               (case func (v_value var) of
                                  Inl e \<Rightarrow> (Some e, st)
                                | Inr v \<Rightarrow>
                                    (let (ok, var', st') = Variable_set var v st in
                                     (None, st'\<lparr>namespace := (namespace st')(arg \<mapsto> var')\<rparr>))))))
      | _ \<Rightarrow> (Some TypeError, st))"

text \<open>The loop of \<open>nInput\<close> reads lines until one is a number, printing the message after
  each refusal; at the end of the input \<open>input\<close> raises \<open>EOFError\<close>.\<close>

fun nInput_loop ::
  "python \<Rightarrow> string \<Rightarrow> string list \<Rightarrow> out_item list \<Rightarrow> (pyexc + pyval) \<times> string list \<times> out_item list" where
  "nInput_loop P msg [] out = (Inl EOFError, [], out)"
| "nInput_loop P msg (i # rest) out =
     (case requireReal P i of
        None \<Rightarrow> nInput_loop P msg rest (out @ [Printed (PStr msg)])
      | Some num \<Rightarrow> (Inr num, rest, out))"

definition B_nInput :: "python \<Rightarrow> string list \<Rightarrow> runtime \<Rightarrow> pyexc option \<times> runtime" where
  "B_nInput P args st =
     (case args of
        [] \<Rightarrow> (Some TypeError, st)
      | arg # msg \<Rightarrow>
          (if \<not> requireIdentifier arg then (None, error_here ''ArgumentException'' st)
           else (case NamespaceSearch arg st of
                   None \<Rightarrow> (None, error_here ''VariableException'' st)
                 | Some var \<Rightarrow>
                     if v_type var \<noteq> VARIABLE_NUMERIC then (None, error_here ''TypeException'' st)
                     else
                       (let m = join_sp (if msg = []
                                   then split_sp ''Input requires to be numeric, please enter again:''
                                   else msg);
                            (r, inp, out) = nInput_loop P m (stdin st) (stdout st);
                            st1 = st\<lparr>stdin := inp, stdout := out\<rparr> in
                        case r of
                          Inl e \<Rightarrow> (Some e, st1)
                        | Inr num \<Rightarrow>
                            (let (ok, var', st2) = Variable_set var num st1 in
                             (None, st2\<lparr>namespace := (namespace st2)(arg \<mapsto> var')\<rparr>))))))"

definition B_breakpoint :: "string list \<Rightarrow> runtime \<Rightarrow> pyexc option \<times> runtime" where
  "B_breakpoint args st =
     (case args of
        [] \<Rightarrow> (None, st\<lparr>stdout := stdout st @ [BreakpointDump (cur_lineno st)]\<rparr>)
      | _ \<Rightarrow> (Some TypeError, st))"

definition invoke :: "python \<Rightarrow> object \<Rightarrow> string list \<Rightarrow> runtime \<Rightarrow> pyexc option \<times> runtime" where
  "invoke P obj args st =
     (case obj of
        NullPointerTraceback \<Rightarrow> B_NullPointerTraceback args st
      | display \<Rightarrow> B_display args st
      | ftc \<Rightarrow> B_ftc P args st
      | wrap \<Rightarrow> B_wrap P args st
      | nInput \<Rightarrow> B_nInput P args st
      | breakpoint \<Rightarrow> B_breakpoint args st)"

section \<open>The instruction handlers\<close>

text \<open>
  Operand resolution, as \<open>com_calc\<close> and \<open>com_if\<close> both write it: the token is tried as
  a number, \<open>@AMS\<close> is the register, and what is still \<open>None\<close> is looked up in the
  namespace and unwrapped to the variable's value. \<open>None\<close> here is the undeclared name.
\<close>

definition resolve :: "python \<Rightarrow> runtime \<Rightarrow> string \<Rightarrow> pyval option" where
  "resolve P st arg =
     (let var0 = (case requireReal P arg of None \<Rightarrow> PNone | Some v \<Rightarrow> v);
          var1 = (if arg = ''@AMS'' then ams st else var0) in
      if var1 = PNone then
        (case NamespaceSearch arg st of None \<Rightarrow> None | Some var \<Rightarrow> Some (v_value var))
      else Some var1)"

definition com_call :: "python \<Rightarrow> string list \<Rightarrow> runtime \<Rightarrow> pyexc option \<times> runtime" where
  "com_call P args st =
     (case ptr st of
        None \<Rightarrow> (None, error_here ''NullPointerException'' st)
      | Some obj \<Rightarrow> invoke P obj args st)"

definition com_load :: "string list \<Rightarrow> runtime \<Rightarrow> pyexc option \<times> runtime" where
  "com_load args st =
     (case (case args of
              [p] \<Rightarrow> Some (''builtins'', p)
            | [p, i] \<Rightarrow> Some (p, i)
            | _ \<Rightarrow> None) of
        None \<Rightarrow> (Some TypeError, st)
      | Some (package, identifier) \<Rightarrow>
          (case PackageSearch package st of
             None \<Rightarrow> (None, error_here ''PackageException'' st)
           | Some pack \<Rightarrow>
               (case pack identifier of
                  None \<Rightarrow> (None, error_here ''PackageException'' st)
                | Some obj \<Rightarrow> (None, st\<lparr>ptr := Some obj\<rparr>))))"

definition com_endif :: "string list \<Rightarrow> runtime \<Rightarrow> pyexc option \<times> runtime" where
  "com_endif args st =
     (case args of
        [] \<Rightarrow> (None, st\<lparr>ifs := (if ifs st \<noteq> 0 then ifs st - 1 else 0)\<rparr>)
      | _ \<Rightarrow> (Some TypeError, st))"

definition com_if :: "python \<Rightarrow> string list \<Rightarrow> runtime \<Rightarrow> pyexc option \<times> runtime" where
  "com_if P args st =
     (case args of
        [arg1, cmp, arg2] \<Rightarrow>
          (case resolve P st arg1 of
             None \<Rightarrow> (None, error_here ''VariableException'' st)
           | Some var1 \<Rightarrow>
               (case resolve P st arg2 of
                  None \<Rightarrow> (None, error_here ''VariableException'' st)
                | Some var2 \<Rightarrow>
                    (case seta_operator cmp of
                       None \<Rightarrow> (None, error_here ''OperatorException'' st)
                     | Some oper \<Rightarrow>
                         (case oper var1 var2 of
                            Inl e \<Rightarrow> (None, error_here ''ComparisonException'' st)
                          | Inr res \<Rightarrow> (None, if \<not> res then st\<lparr>ifs := 1\<rparr> else st)))))
      | _ \<Rightarrow> (Some TypeError, st))"

definition com_emp :: "string list \<Rightarrow> runtime \<Rightarrow> pyexc option \<times> runtime" where
  "com_emp args st = (case args of [] \<Rightarrow> (None, st) | _ \<Rightarrow> (Some TypeError, st))"

definition calc_oper :: "python \<Rightarrow> string \<Rightarrow> (pyval \<Rightarrow> pyval \<Rightarrow> pyexc + pyval) option" where
  "calc_oper P operation =
     (if operation = ''add'' then Some (py_add P)
      else if operation = ''sub'' then Some (py_sub P)
      else if operation = ''mul'' then Some (py_mul P)
      else if operation = ''div'' then Some (py_truediv P)
      else if operation = ''power'' then Some (py_pow P)
      else None)"

text \<open>The write-back of \<open>com_calc\<close>: the register first, then the result variable, made
  numeric when the name is new; \<open>Variable.set\<close> decides whether the value is stored.\<close>

definition calc_store :: "string \<Rightarrow> pyval \<Rightarrow> runtime \<Rightarrow> runtime" where
  "calc_store res r st =
     (let st1 = st\<lparr>ams := r\<rparr>;
          (var, st2) = (case NamespaceSearch res st1 of
                          None \<Rightarrow> (let v = Variable res VARIABLE_NUMERIC in (v, NamespaceInput v st1))
                        | Some v \<Rightarrow> (v, st1));
          (ok, var', st3) = Variable_set var r st2 in
      st3\<lparr>namespace := (namespace st3)(res \<mapsto> var')\<rparr>)"

definition com_calc :: "python \<Rightarrow> string list \<Rightarrow> runtime \<Rightarrow> pyexc option \<times> runtime" where
  "com_calc P args st =
     (case args of
        [operation, arg1, arg2, res] \<Rightarrow>
          (case calc_oper P operation of
             None \<Rightarrow> (None, error_here ''ArgumentException'' st)
           | Some oper \<Rightarrow>
               (case resolve P st arg1 of
                  None \<Rightarrow> (None, error_here ''VariableException'' st)
                | Some var1 \<Rightarrow>
                    (case resolve P st arg2 of
                       None \<Rightarrow> (None, error_here ''VariableException'' st)
                     | Some var2 \<Rightarrow>
                         if operation = ''div'' \<and> py_eq var2 (PInt 0)
                         then (None, error_here ''MathException'' st)
                         else if operation = ''power'' \<and> py_eq var1 var2 \<and> py_eq var2 (PInt 0)
                         then (None, error_here ''MathException'' st)
                         else if \<not> requireIdentifier res
                         then (None, error_here ''ArgumentException'' st)
                         else (case oper var1 var2 of
                                 Inl e \<Rightarrow> (Some e, st)
                               | Inr r \<Rightarrow> (None, calc_store res r st)))))
      | _ \<Rightarrow> (Some TypeError, st))"

definition com_set :: "python \<Rightarrow> string list \<Rightarrow> runtime \<Rightarrow> pyexc option \<times> runtime" where
  "com_set P args st =
     (case args of
        vType # name # val # texts \<Rightarrow>
          (if \<not> requireIdentifier name then (None, error_here ''ArgumentException'' st)
           else if vType = ''numeric'' then
             (case requireReal P val of
                None \<Rightarrow> (None, error_here ''TypeException'' st)
              | Some v \<Rightarrow>
                  if texts \<noteq> [] then (None, error_here ''ArgumentException'' st)
                  else (let (ok, var, st') = Variable_set (Variable name VARIABLE_NUMERIC) v st in
                        (None, NamespaceInput var st')))
           else if vType = ''cstring'' then
             (let (ok, var, st') =
                    Variable_set (Variable name VARIABLE_STRING_CONST) (PStr (join_sp (val # texts))) st in
              (None, NamespaceInput var st'))
           else (None, error_here ''ArgumentException'' st))
      | _ \<Rightarrow> (Some TypeError, st))"

section \<open>The dispatcher (\<open>SetaRuntime.run\<close>)\<close>

text \<open>The loop ends by \<open>sys.exit()\<close> or by an exception that nothing catches.\<close>

datatype outcome = Exit | Uncaught pyexc

text \<open>The two statements that close every cycle: the line number goes up by one and
  the next instruction is fetched.\<close>

definition advance :: "soc \<Rightarrow> runtime \<Rightarrow> soc \<times> runtime" where
  "advance s st =
     (let (i, s') = instruction s in (s', st\<lparr>cur_lineno := cur_lineno st + 1, cur_code := i\<rparr>))"

text \<open>\<open>try: handler(*args) except TypeError: ArgumentException\<close>, then the cycle closes;
  any other exception leaves the loop.\<close>

definition guarded ::
  "soc \<Rightarrow> pyexc option \<times> runtime \<Rightarrow> (outcome \<times> soc \<times> runtime) + (soc \<times> runtime)" where
  "guarded s r =
     (case r of
        (None, st) \<Rightarrow> Inr (advance s st)
      | (Some TypeError, st) \<Rightarrow> Inr (advance s (error_here ''ArgumentException'' st))
      | (Some e, st) \<Rightarrow> Inl (Uncaught e, s, st))"

text \<open>One pass through the body of the loop: \<open>Inl\<close> when the loop is left, \<open>Inr\<close> with
  the state at the top of the next pass otherwise.\<close>

definition cycle ::
  "python \<Rightarrow> soc \<times> runtime \<Rightarrow> (outcome \<times> soc \<times> runtime) + (soc \<times> runtime)" where
  "cycle P c =
     (let (s, st) = c in
      if status st \<noteq> RUNTIME_STATUS_RUNNING then Inl (Exit, s, st)
      else (case cur_code st of
              None \<Rightarrow> Inl (Exit, s, if ifs st \<noteq> 0 then error_here ''BlockException'' st else st)
            | Some (com, args) \<Rightarrow>
                if lower com = ''endif'' then guarded s (com_endif args st)
                else if ifs st \<noteq> 0 then
                  Inr (advance s (if lower com = ''if'' then st\<lparr>ifs := ifs st + 1\<rparr> else st))
                else if lower com = ''set'' then guarded s (com_set P args st)
                else if lower com = ''calc'' then guarded s (com_calc P args st)
                else if lower com = ''load'' then guarded s (com_load args st)
                else if lower com = ''emp'' then guarded s (com_emp args st)
                else if lower com = ''if'' then guarded s (com_if P args st)
                else if lower com = ''call'' then guarded s (com_call P args st)
                else Inr (advance s (error_here ''UnsupportedOperationException'' st))))"

text \<open>The loop itself. It ends on every program: each pass that does not leave the loop
  moves the stream forward, or finds it exhausted and leaves on the next pass.\<close>

function run :: "python \<Rightarrow> soc \<times> runtime \<Rightarrow> outcome \<times> soc \<times> runtime" where
  "run P c = (case cycle P c of Inl r \<Rightarrow> r | Inr c' \<Rightarrow> run P c')"
  by pat_completeness auto
termination
proof (relation "measure (\<lambda>(P, s, st).
         length (text_lines s) - pointer s + (if cur_code st = None then 0 else 1))")
  show "wf (measure (\<lambda>(P, s, st).
         length (text_lines s) - pointer s + (if cur_code st = None then 0 else 1)))"
    by simp
next
  fix P :: python and c c' :: "soc \<times> runtime"
  assume step: "cycle P c = Inr c'"
  obtain s st where c: "c = (s, st)" by (cases c)
  have "cur_code st \<noteq> None \<and> (\<exists>st'. c' = advance s st')"
    using step unfolding c
    by (auto simp: cycle_def guarded_def split: if_splits option.splits prod.splits pyexc.splits)
  then obtain st' where code: "cur_code st \<noteq> None" and c': "c' = advance s st'" by blast
  have "(case advance s st' of (s', st'') \<Rightarrow>
          length (text_lines s') - pointer s' + (if cur_code st'' = None then 0 else 1))
        \<le> length (text_lines s) - pointer s"
    by (auto simp: advance_def instruction_def Let_def split: prod.splits)
  with code
  show "((P, c'), (P, c)) \<in> measure (\<lambda>(P, s, st).
         length (text_lines s) - pointer s + (if cur_code st = None then 0 else 1))"
    by (simp add: c c' split: prod.splits)
qed

declare run.simps [simp del]

text \<open>\<open>Seta(path).run()\<close>, as \<open>seta.py\<close> calls it.\<close>

definition Seta_run :: "python \<Rightarrow> string \<Rightarrow> string list \<Rightarrow> outcome \<times> soc \<times> runtime" where
  "Seta_run P src inp = run P (Seta P src inp)"

section \<open>An instance of the Python parameters\<close>

text \<open>
  To run programs in the model, the three text-reading builtins are instantiated on plain
  decimal literals, where Python's behaviour is beyond doubt: \<open>eval\<close> of a decimal integer
  literal (no leading zero unless all digits are zero) is that int, of \<open>digits.digits\<close>
  the float of that value (exact where the decimal is a double, as \<open>1.0\<close> and \<open>99.0\<close>
  are), and every other text raises here (as any name that is not bound does);
  \<open>float\<close> and \<open>int\<close> read the same literals, leading zeros allowed. The float
  arithmetic of the instance is as narrow: the quotient of two ints that divide evenly
  into an integer of magnitude at most \<open>2^53\<close> is that float, exactly, and a zero divisor
  raises \<open>ZeroDivisionError\<close>; \<open>float\<close> of an int of magnitude at most \<open>2^53\<close> is that
  float; everything else is outside the instance, which raises there.
\<close>

definition digit_char :: "char \<Rightarrow> bool" where
  "digit_char c = (48 \<le> (of_char c :: nat) \<and> (of_char c :: nat) \<le> 57)"

fun digits_val :: "nat \<Rightarrow> string \<Rightarrow> nat" where
  "digits_val acc [] = acc"
| "digits_val acc (c # cs) = digits_val (10 * acc + (of_char c - 48)) cs"

definition digits :: "string \<Rightarrow> nat option" where
  "digits s = (if s \<noteq> [] \<and> list_all digit_char s then Some (digits_val 0 s) else None)"

definition dec_float :: "string \<Rightarrow> real option" where
  "dec_float s =
     (let ip = takeWhile (\<lambda>c. c \<noteq> CHR ''.'') s; fp = drop (length ip + 1) s in
      if length ip < length s then
        (case (digits ip, digits fp) of
           (Some i, Some f) \<Rightarrow> Some (of_nat i + of_nat f / 10 ^ length fp)
         | _ \<Rightarrow> None)
      else None)"

definition literal_eval :: "string \<Rightarrow> pyval option" where
  "literal_eval s =
     (case digits s of
        Some n \<Rightarrow> if hd s = CHR ''0'' \<and> n \<noteq> 0 then None else Some (PInt (int n))
      | None \<Rightarrow> (case dec_float s of Some x \<Rightarrow> Some (PFloat x) | None \<Rightarrow> None))"

definition literal_float :: "string \<Rightarrow> real option" where
  "literal_float s = (case digits s of Some n \<Rightarrow> Some (of_nat n) | None \<Rightarrow> dec_float s)"

definition literal_int :: "string \<Rightarrow> int option" where
  "literal_int s = (case digits s of Some n \<Rightarrow> Some (int n) | None \<Rightarrow> None)"

definition even_quotient :: "pyop \<Rightarrow> pyval \<Rightarrow> pyval \<Rightarrow> pyexc + pyval" where
  "even_quotient op a b =
     (if op = OpTruediv \<and> is_int a \<and> is_int b then
        (if int_of b = 0 then Inl ZeroDivisionError
         else if int_of b dvd int_of a \<and> \<bar>int_of a div int_of b\<bar> \<le> 2 ^ 53
         then Inr (PFloat (of_int (int_of a div int_of b)))
         else Inl OverflowError)
      else Inl OverflowError)"

definition small_float_int :: "int \<Rightarrow> real option" where
  "small_float_int i = (if \<bar>i\<bar> \<le> 2 ^ 53 then Some (of_int i) else None)"

definition literals :: python where
  "literals = \<lparr>py_eval = literal_eval, py_float_str = literal_float, py_int_str = literal_int,
                py_float_arith = even_quotient, py_float_int = small_float_int\<rparr>"

section \<open>Observations used in the statements\<close>

text \<open>A program text from its lines, each closed by a newline.\<close>

fun unlines :: "string list \<Rightarrow> string" where
  "unlines [] = []"
| "unlines (l # ls) = l @ [CHR 0x0A] @ unlines ls"

text \<open>The state after a number of passes through the loop, while the loop is not left.\<close>

fun cycles ::
  "python \<Rightarrow> nat \<Rightarrow> soc \<times> runtime \<Rightarrow> (outcome \<times> soc \<times> runtime) + (soc \<times> runtime)" where
  "cycles P 0 c = Inr c"
| "cycles P (Suc n) c = (case cycle P c of Inl r \<Rightarrow> Inl r | Inr c' \<Rightarrow> cycles P n c')"

definition depth_after :: "python \<Rightarrow> nat \<Rightarrow> soc \<times> runtime \<Rightarrow> int option" where
  "depth_after P n c = (case cycles P n c of Inl r \<Rightarrow> None | Inr c' \<Rightarrow> Some (ifs (snd c')))"

text \<open>The diagnostics among what was written to the output surface.\<close>

fun is_diagnostic :: "out_item \<Rightarrow> bool" where
  "is_diagnostic (Diagnostic c l) = True"
| "is_diagnostic _ = False"

definition diagnostics :: "runtime \<Rightarrow> out_item list" where
  "diagnostics st = filter is_diagnostic (stdout st)"

text \<open>A runtime is accounted for when it is still running or has reported a diagnostic.\<close>

definition accounted :: "runtime \<Rightarrow> bool" where
  "accounted st = (status st = RUNTIME_STATUS_RUNNING \<or> diagnostics st \<noteq> [])"

text \<open>The runtime in which a run ended.\<close>

definition final :: "outcome \<times> soc \<times> runtime \<Rightarrow> runtime" where
  "final r = snd (snd r)"

section \<open>Evaluation and auxiliary facts\<close>

text \<open>The definitions that a run of a concrete program unfolds.\<close>

lemmas run_defs = Seta_run_def Seta_def SetaStringOperationCode_def precheck_def setSupport_def
  instruction_def SetaRuntime_def literals_def literal_float_def literal_eval_def digits_def
  dec_float_def digit_char_def Seta_version_def cycle_def guarded_def advance_def lower_def
  lower_char_def com_set_def com_calc_def com_if_def com_endif_def com_load_def com_call_def
  com_emp_def requireIdentifier_def ident_char_def requireReal_def Variable_set_def Variable_def
  NamespaceInput_def NamespaceSearch_def error_here_def error_def resolve_def seta_operator_def
  py_lt_def is_real_num_def calc_oper_def calc_store_def invoke_def B_NullPointerTraceback_def
  final_def depth_after_def Let_def PackageSearch_def BuiltinsPackage_def py_eq_def is_num_def
  py_add_def py_truediv_def even_quotient_def

text \<open>The write-back of \<open>calc\<close>, by the binding of the result name: the register always
  receives the result; the variable receives it when \<open>Variable.set\<close> accepts it.\<close>

lemma calc_store_cases:
  "calc_store r q st =
     (case namespace st r of
        None \<Rightarrow>
          if is_str q then
            (error_here ''ValueException'' (st\<lparr>ams := q\<rparr>))
              \<lparr>namespace := (namespace st)(r \<mapsto> Variable r VARIABLE_NUMERIC)\<rparr>
          else st\<lparr>ams := q, namespace := (namespace st)(r \<mapsto>
                  \<lparr>v_name = r, v_type = VARIABLE_NUMERIC, v_value = q\<rparr>)\<rparr>
      | Some v \<Rightarrow>
          if is_str q = (v_type v = VARIABLE_STRING_CONST)
          then st\<lparr>ams := q, namespace := (namespace st)(r \<mapsto> v\<lparr>v_value := q\<rparr>)\<rparr>
          else error_here ''ValueException'' (st\<lparr>ams := q\<rparr>))"
  by (cases "namespace st r"; cases "v_type (the (namespace st r))")
     (auto simp: calc_store_def NamespaceSearch_def NamespaceInput_def Variable_set_def
        Variable_def Let_def error_here_def error_def fun_upd_idem)

section \<open>C1: \<open>calc div\<close> writes the quotient\<close>

text \<open>
  Claim C1 says that \<open>calc div a b r\<close>, executed in the Executing state on operands that
  resolve to numbers \<open>a\<close> and \<open>b \<noteq> 0\<close> and with a valid result name, sets the variable
  \<open>r\<close> to \<open>a/b\<close> and the register \<open>@AMS\<close> to the same value. That fails when \<open>r\<close>
  is already bound to a constant-string variable: after \<open>set cstring r hello\<close>, the
  instruction \<open>calc div 6 3 r\<close> puts 2.0 into the register, reports \<open>ValueException\<close>
  and leaves \<open>r\<close> at \<open>hello\<close>.
\<close>

theorem C1_cstring_result_counterexample:
  "map_option v_value (namespace (final (Seta_run literals
       (unlines [''SETA-SOC 1.0'', ''set cstring r hello'', ''calc div 6 3 r'']) [])) ''r'')
     = Some (PStr ''hello'')
   \<and> ams (final (Seta_run literals
       (unlines [''SETA-SOC 1.0'', ''set cstring r hello'', ''calc div 6 3 r'']) [])) = PFloat 2
   \<and> stdout (final (Seta_run literals
       (unlines [''SETA-SOC 1.0'', ''set cstring r hello'', ''calc div 6 3 r'']) []))
     = [Diagnostic ''ValueException'' 3]"
  by (simp add: run_defs run.simps)

text \<open>When the operator of \<open>calc\<close> raises anything but \<open>TypeError\<close> (as the division
  does with \<open>OverflowError\<close> beyond the range of floats), nothing has been written and
  nothing catches the exception: the interpreter ends with it.\<close>

lemma calc_oper_raises:
  assumes "status st = RUNTIME_STATUS_RUNNING" and "ifs st = 0"
    and "cur_code st = Some (''calc'', [op, a, b, r])"
    and "calc_oper P op = Some oper"
    and "resolve P st a = Some va" and "resolve P st b = Some vb"
    and "\<not> py_eq vb (PInt 0)" and "requireIdentifier r"
    and "oper va vb = Inl e" and "e \<noteq> TypeError"
  shows "cycle P (s, st) = Inl (Uncaught e, s, st)"
  using assms
  by (cases e) (simp_all add: cycle_def lower_def lower_char_def com_calc_def guarded_def)

text \<open>
  C1, as amended: in the Executing state (status Running, skip depth 0), for operand tokens
  that resolve to numeric values \<open>a\<close> and \<open>b\<close> with \<open>b \<noteq> 0\<close> and a valid result
  identifier \<open>r\<close>, whenever Python's true division of \<open>a\<close> by \<open>b\<close> returns a float
  \<open>q\<close> (the \<open>a/b\<close> of the claim, as the machine computes it), one pass of the
  dispatcher over \<open>calc div a b r\<close> sets \<open>@AMS\<close> to \<open>q\<close> in every case; it sets the
  value of \<open>r\<close> to \<open>q\<close> when \<open>r\<close> is absent (creating it as Numeric) or bound to a
  Numeric variable (kind and name kept); when \<open>r\<close> is bound to a constant-string variable
  it reports \<open>ValueException\<close> and leaves the binding of \<open>r\<close> as it was. Nothing else
  changes before the cycle advances. Operands for which the division raises instead (an
  int or a quotient of ints beyond the range of floats) are left out of the statement.
\<close>

theorem C1_calc_div_result:
  assumes "status st = RUNTIME_STATUS_RUNNING" and "ifs st = 0"
    and "cur_code st = Some (''calc'', [''div'', a, b, r])"
    and "resolve P st a = Some va" and "resolve P st b = Some vb"
    and "is_real_num va" and "is_real_num vb" and "real_of vb \<noteq> 0"
    and "requireIdentifier r"
    and "py_truediv P va vb = Inr q" and "is_float q"
  shows "cycle P (s, st) =
           Inr (advance s
             (case namespace st r of
                None \<Rightarrow>
                  st\<lparr>ams := q,
                     namespace := (namespace st)(r \<mapsto>
                       \<lparr>v_name = r, v_type = VARIABLE_NUMERIC, v_value = q\<rparr>)\<rparr>
              | Some v \<Rightarrow>
                  if v_type v = VARIABLE_NUMERIC
                  then st\<lparr>ams := q, namespace := (namespace st)(r \<mapsto> v\<lparr>v_value := q\<rparr>)\<rparr>
                  else error_here ''ValueException'' (st\<lparr>ams := q\<rparr>)))"
proof -
  have nz: "\<not> py_eq vb (PInt 0)"
    using assms(7,8) by (cases vb) (auto simp: py_eq_def is_num_def is_real_num_def)
  have ns: "\<not> is_str q"
    using assms(11) by (cases q) simp_all
  have store: "calc_store r q st =
     (case namespace st r of
                None \<Rightarrow>
                  st\<lparr>ams := q,
                     namespace := (namespace st)(r \<mapsto>
                       \<lparr>v_name = r, v_type = VARIABLE_NUMERIC, v_value = q\<rparr>)\<rparr>
              | Some v \<Rightarrow>
                  if v_type v = VARIABLE_NUMERIC
                  then st\<lparr>ams := q, namespace := (namespace st)(r \<mapsto> v\<lparr>v_value := q\<rparr>)\<rparr>
                  else error_here ''ValueException'' (st\<lparr>ams := q\<rparr>))"
    using ns
    by (cases "namespace st r"; cases "v_type (the (namespace st r))")
       (simp_all add: calc_store_cases)
  show ?thesis
    using assms(1-5,9,10) nz
    by (simp add: cycle_def lower_def lower_char_def com_calc_def calc_oper_def guarded_def store)
qed

text \<open>The theorem at the first instruction of the program \<open>calc div 6 3 r\<close>, where the
  division returns 2.0: the register and the new variable \<open>r\<close> both hold 2.0.\<close>

theorem C1_calc_div_result_witness:
  "ams (snd (projr (cycle literals
       (Seta literals (unlines [''SETA-SOC 1.0'', ''calc div 6 3 r'']) [])))) = PFloat 2
   \<and> map_option v_value (namespace (snd (projr (cycle literals
       (Seta literals (unlines [''SETA-SOC 1.0'', ''calc div 6 3 r'']) [])))) ''r'')
     = Some (PFloat 2)"
proof -
  obtain s st where c: "Seta literals (unlines [''SETA-SOC 1.0'', ''calc div 6 3 r'']) [] = (s, st)"
    by (cases "Seta literals (unlines [''SETA-SOC 1.0'', ''calc div 6 3 r'']) []")
  then have st: "st = snd (Seta literals (unlines [''SETA-SOC 1.0'', ''calc div 6 3 r'']) [])"
    by simp
  have h1: "status st = RUNTIME_STATUS_RUNNING" and h2: "ifs st = 0"
    and h3: "cur_code st = Some (''calc'', [''div'', ''6'', ''3'', ''r''])"
    and h4: "resolve literals st ''6'' = Some (PInt 6)"
    and h5: "resolve literals st ''3'' = Some (PInt 3)"
    and ns: "namespace st ''r'' = None"
    unfolding st by (simp_all add: run_defs)
  have h6: "is_real_num (PInt 6)" and h7: "is_real_num (PInt 3)" and h8: "real_of (PInt 3) \<noteq> 0"
    and h9: "requireIdentifier ''r''"
    and h10: "py_truediv literals (PInt 6) (PInt 3) = Inr (PFloat 2)"
    and h11: "is_float (PFloat 2)"
    by (simp_all add: is_real_num_def is_num_def requireIdentifier_def ident_char_def
          py_truediv_def literals_def even_quotient_def)
  from C1_calc_div_result [OF h1 h2 h3 h4 h5 h6 h7 h8 h9 h10 h11, of s]
  show ?thesis
    unfolding c by (simp add: ns advance_def split: prod.splits)
qed

text \<open>A literal token resolves to the number it evaluates to.\<close>

lemma resolve_literal:
  assumes "py_eval P t = Some v" and "is_real_num v" and "t \<noteq> ''@AMS''"
  shows "resolve P st t = Some v"
  using assms by (cases v) (auto simp: resolve_def requireReal_def is_real_num_def Let_def)

lemma py_eq_zero_zero:
  assumes "py_eq va (PInt 0)" and "py_eq vb (PInt 0)"
  shows "py_eq va vb"
  using assms by (auto simp: py_eq_def is_num_def split: if_splits)

section \<open>C2: division by zero and zero to the power zero\<close>

text \<open>
  Claim C2 says that \<open>calc div a 0 r\<close> reports \<open>MathException\<close> for every operand token
  \<open>a\<close>. The operands are resolved before the divisor is tested, so a token that is
  neither a number, nor \<open>@AMS\<close>, nor a declared variable is reported first: the program
  \<open>calc div foo 0 r\<close> ends with \<open>VariableException\<close> and no \<open>MathException\<close>.
\<close>

theorem C2_undeclared_operand_counterexample:
  "stdout (final (Seta_run literals (unlines [''SETA-SOC 1.0'', ''calc div foo 0 r'']) []))
     = [Diagnostic ''VariableException'' 2]"
  by (simp add: run_defs run.simps)

text \<open>
  C2, as amended: in the Executing state, for every operand token \<open>a\<close> that resolves (a
  number, \<open>@AMS\<close> or a declared variable), every right operand that resolves to zero (the
  token \<open>0\<close> among them) and every result name \<open>r\<close>, valid or not, one pass over
  \<open>calc div a 0 r\<close> reports \<open>MathException\<close>; so does \<open>calc power 0 0 r\<close>, where both
  operands resolve to zero. In both cases the status becomes Error and nothing else
  changes: no result is computed, the register and the namespace stay as they were.
\<close>

theorem C2_math_exception:
  assumes "status st = RUNTIME_STATUS_RUNNING" and "ifs st = 0"
    and "cur_code st = Some (''calc'', [op, a, b, r])"
    and "resolve P st a = Some va" and "resolve P st b = Some vb"
    and "py_eq vb (PInt 0)"
    and "op = ''div'' \<or> (op = ''power'' \<and> py_eq va (PInt 0))"
  shows "cycle P (s, st) =
           Inr (advance s (st\<lparr>stdout := stdout st @ [Diagnostic ''MathException'' (cur_lineno st)],
                               status := RUNTIME_STATUS_ERROR\<rparr>))"
proof -
  have "com_calc P [op, a, b, r] st = (None, error_here ''MathException'' st)"
    using assms(4-7) py_eq_zero_zero [of va vb]
    by (auto simp: com_calc_def calc_oper_def)
  then show ?thesis
    using assms(1-3)
    by (simp add: cycle_def lower_def lower_char_def guarded_def error_here_def error_def)
qed

text \<open>The theorem at \<open>calc div 7 0 r\<close> and at \<open>calc power 0 0 r\<close>, each the first
  instruction of a program.\<close>

theorem C2_math_exception_witness:
  "stdout (snd (projr (cycle literals
       (Seta literals (unlines [''SETA-SOC 1.0'', ''calc div 7 0 r'']) []))))
     = [Diagnostic ''MathException'' 2]
   \<and> stdout (snd (projr (cycle literals
       (Seta literals (unlines [''SETA-SOC 1.0'', ''calc power 0 0 r'']) []))))
     = [Diagnostic ''MathException'' 2]"
proof -
  obtain s st where c: "Seta literals (unlines [''SETA-SOC 1.0'', ''calc div 7 0 r'']) [] = (s, st)"
    by (cases "Seta literals (unlines [''SETA-SOC 1.0'', ''calc div 7 0 r'']) []")
  then have st: "st = snd (Seta literals (unlines [''SETA-SOC 1.0'', ''calc div 7 0 r'']) [])"
    by simp
  obtain s' st' where
    c': "Seta literals (unlines [''SETA-SOC 1.0'', ''calc power 0 0 r'']) [] = (s', st')"
    by (cases "Seta literals (unlines [''SETA-SOC 1.0'', ''calc power 0 0 r'']) []")
  then have st': "st' = snd (Seta literals (unlines [''SETA-SOC 1.0'', ''calc power 0 0 r'']) [])"
    by simp
  have h1: "status st = RUNTIME_STATUS_RUNNING" and h2: "ifs st = 0"
    and h3: "cur_code st = Some (''calc'', [''div'', ''7'', ''0'', ''r''])"
    and h4: "resolve literals st ''7'' = Some (PInt 7)"
    and h5: "resolve literals st ''0'' = Some (PInt 0)"
    and out: "stdout st = []" and ln: "cur_lineno st = 2"
    unfolding st by (simp_all add: run_defs)
  have k1: "status st' = RUNTIME_STATUS_RUNNING" and k2: "ifs st' = 0"
    and k3: "cur_code st' = Some (''calc'', [''power'', ''0'', ''0'', ''r''])"
    and k4: "resolve literals st' ''0'' = Some (PInt 0)"
    and out': "stdout st' = []" and ln': "cur_lineno st' = 2"
    unfolding st' by (simp_all add: run_defs)
  have z: "py_eq (PInt 0) (PInt 0)" by (simp add: py_eq_def is_num_def)
  have d: "''div'' = ''div'' \<or> (''div'' = ''power'' \<and> py_eq (PInt 7) (PInt 0))" by simp
  have p: "''power'' = ''div'' \<or> (''power'' = ''power'' \<and> py_eq (PInt 0) (PInt 0))"
    using z by simp
  from C2_math_exception [OF h1 h2 h3 h4 h5 z d, of s]
    C2_math_exception [OF k1 k2 k3 k4 k4 z p, of s']
  show ?thesis
    unfolding c c' by (simp add: out ln out' ln' advance_def split: prod.splits)
qed

section \<open>C3: the skip depth\<close>

text \<open>
  Claim C3, skip-depth correctness. For a running dispatcher and any current instruction:
  a bare \<open>endif\<close> is executed whatever the depth, also while skipping, and lowers the
  depth by one with floor 0; while the depth is positive an \<open>if\<close> raises it from \<open>d\<close>
  to \<open>d + 1\<close> without being evaluated, and every other mnemonic is consumed without being
  executed (the state is unchanged, the cycle only advances). On the program \<open>if 1 < 0\<close>,
  \<open>if 1 > 0\<close>, \<open>endif\<close>, \<open>endif\<close>, started in Executing, the depth after 0, 1, 2, 3
  and 4 cycles is 0, 1, 2, 1, 0: the dispatcher is back in Executing after the second
  \<open>endif\<close> and not earlier. With a \<open>set\<close> behind each of the three lines, only the one
  after the second \<open>endif\<close> is executed.
\<close>

theorem C3_skip_depth:
  assumes "status st = RUNTIME_STATUS_RUNNING" and "cur_code st = Some (com, args)"
  shows "(lower com = ''endif'' \<and> args = [] \<longrightarrow>
            cycle P (s, st) =
              Inr (advance s (st\<lparr>ifs := (if ifs st \<noteq> 0 then ifs st - 1 else 0)\<rparr>)))
       \<and> (lower com = ''if'' \<and> 0 < ifs st \<longrightarrow>
            cycle P (s, st) = Inr (advance s (st\<lparr>ifs := ifs st + 1\<rparr>)))
       \<and> (lower com \<noteq> ''if'' \<and> lower com \<noteq> ''endif'' \<and> 0 < ifs st \<longrightarrow>
            cycle P (s, st) = Inr (advance s st))
       \<and> depth_after literals 0
            (Seta literals (unlines [''SETA-SOC 1.0'', ''if 1 < 0'', ''if 1 > 0'', ''endif'', ''endif'']) [])
            = Some 0
       \<and> depth_after literals 1
            (Seta literals (unlines [''SETA-SOC 1.0'', ''if 1 < 0'', ''if 1 > 0'', ''endif'', ''endif'']) [])
            = Some 1
       \<and> depth_after literals 2
            (Seta literals (unlines [''SETA-SOC 1.0'', ''if 1 < 0'', ''if 1 > 0'', ''endif'', ''endif'']) [])
            = Some 2
       \<and> depth_after literals 3
            (Seta literals (unlines [''SETA-SOC 1.0'', ''if 1 < 0'', ''if 1 > 0'', ''endif'', ''endif'']) [])
            = Some 1
       \<and> depth_after literals 4
            (Seta literals (unlines [''SETA-SOC 1.0'', ''if 1 < 0'', ''if 1 > 0'', ''endif'', ''endif'']) [])
            = Some 0
       \<and> map_option v_value (namespace (final (Seta_run literals
            (unlines [''SETA-SOC 1.0'', ''if 1 < 0'', ''if 1 > 0'', ''set numeric y 1'', ''endif'',
                      ''set numeric z 2'', ''endif'', ''set numeric x 5'']) [])) ''x'') = Some (PInt 5)
       \<and> namespace (final (Seta_run literals
            (unlines [''SETA-SOC 1.0'', ''if 1 < 0'', ''if 1 > 0'', ''set numeric y 1'', ''endif'',
                      ''set numeric z 2'', ''endif'', ''set numeric x 5'']) [])) ''y'' = None
       \<and> namespace (final (Seta_run literals
            (unlines [''SETA-SOC 1.0'', ''if 1 < 0'', ''if 1 > 0'', ''set numeric y 1'', ''endif'',
                      ''set numeric z 2'', ''endif'', ''set numeric x 5'']) [])) ''z'' = None"
proof -
  have a: "lower com = ''endif'' \<and> args = [] \<longrightarrow>
            cycle P (s, st) =
              Inr (advance s (st\<lparr>ifs := (if ifs st \<noteq> 0 then ifs st - 1 else 0)\<rparr>))"
    using assms by (simp add: cycle_def com_endif_def guarded_def)
  have b: "lower com = ''if'' \<and> 0 < ifs st \<longrightarrow>
            cycle P (s, st) = Inr (advance s (st\<lparr>ifs := ifs st + 1\<rparr>))"
    using assms by (auto simp: cycle_def)
  have c: "lower com \<noteq> ''if'' \<and> lower com \<noteq> ''endif'' \<and> 0 < ifs st \<longrightarrow>
            cycle P (s, st) = Inr (advance s st)"
    using assms by (auto simp: cycle_def)
  have d0: "depth_after literals 0
            (Seta literals (unlines [''SETA-SOC 1.0'', ''if 1 < 0'', ''if 1 > 0'', ''endif'', ''endif'']) [])
            = Some 0"
    by (simp add: run_defs)
  have d1: "depth_after literals 1
            (Seta literals (unlines [''SETA-SOC 1.0'', ''if 1 < 0'', ''if 1 > 0'', ''endif'', ''endif'']) [])
            = Some 1"
    by (simp add: run_defs)
  have d2: "depth_after literals 2
            (Seta literals (unlines [''SETA-SOC 1.0'', ''if 1 < 0'', ''if 1 > 0'', ''endif'', ''endif'']) [])
            = Some 2"
    by (simp add: run_defs eval_nat_numeral)
  have d3: "depth_after literals 3
            (Seta literals (unlines [''SETA-SOC 1.0'', ''if 1 < 0'', ''if 1 > 0'', ''endif'', ''endif'']) [])
            = Some 1"
    by (simp add: run_defs eval_nat_numeral)
  have d4: "depth_after literals 4
            (Seta literals (unlines [''SETA-SOC 1.0'', ''if 1 < 0'', ''if 1 > 0'', ''endif'', ''endif'']) [])
            = Some 0"
    by (simp add: run_defs eval_nat_numeral)
  have x: "map_option v_value (namespace (final (Seta_run literals
            (unlines [''SETA-SOC 1.0'', ''if 1 < 0'', ''if 1 > 0'', ''set numeric y 1'', ''endif'',
                      ''set numeric z 2'', ''endif'', ''set numeric x 5'']) [])) ''x'') = Some (PInt 5)"
    by (simp add: run_defs run.simps)
  have y: "namespace (final (Seta_run literals
            (unlines [''SETA-SOC 1.0'', ''if 1 < 0'', ''if 1 > 0'', ''set numeric y 1'', ''endif'',
                      ''set numeric z 2'', ''endif'', ''set numeric x 5'']) [])) ''y'' = None"
    by (simp add: run_defs run.simps)
  have z: "namespace (final (Seta_run literals
            (unlines [''SETA-SOC 1.0'', ''if 1 < 0'', ''if 1 > 0'', ''set numeric y 1'', ''endif'',
                      ''set numeric z 2'', ''endif'', ''set numeric x 5'']) [])) ''z'' = None"
    by (simp add: run_defs run.simps)
  from a b c d0 d1 d2 d3 d4 x y z show ?thesis by blast
qed

text \<open>The three general parts at states of a run: the nested \<open>if\<close> met at depth 1, a
  \<open>set\<close> met at depth 2, and the first \<open>endif\<close> met at depth 2.\<close>

theorem C3_skip_depth_witness:
  "ifs (snd (projr (cycle literals (projr (cycles literals 1 (Seta literals
      (unlines [''SETA-SOC 1.0'', ''if 1 < 0'', ''if 1 > 0'', ''set numeric y 1'', ''endif'',
                ''set numeric z 2'', ''endif'', ''set numeric x 5'']) [])))))) = 2
   \<and> namespace (snd (projr (cycle literals (projr (cycles literals 2 (Seta literals
      (unlines [''SETA-SOC 1.0'', ''if 1 < 0'', ''if 1 > 0'', ''set numeric y 1'', ''endif'',
                ''set numeric z 2'', ''endif'', ''set numeric x 5'']) [])))))) ''y'' = None
   \<and> ifs (snd (projr (cycle literals (projr (cycles literals 3 (Seta literals
      (unlines [''SETA-SOC 1.0'', ''if 1 < 0'', ''if 1 > 0'', ''set numeric y 1'', ''endif'',
                ''set numeric z 2'', ''endif'', ''set numeric x 5'']) [])))))) = 1"
proof -
  define c0 where "c0 = Seta literals
      (unlines [''SETA-SOC 1.0'', ''if 1 < 0'', ''if 1 > 0'', ''set numeric y 1'', ''endif'',
                ''set numeric z 2'', ''endif'', ''set numeric x 5'']) []"
  obtain s1 st1 where c1: "projr (cycles literals 1 c0) = (s1, st1)"
    by (cases "projr (cycles literals 1 c0)")
  obtain s2 st2 where c2: "projr (cycles literals 2 c0) = (s2, st2)"
    by (cases "projr (cycles literals 2 c0)")
  obtain s3 st3 where c3: "projr (cycles literals 3 c0) = (s3, st3)"
    by (cases "projr (cycles literals 3 c0)")
  have st1: "st1 = snd (projr (cycles literals 1 c0))" using c1 by simp
  have st2: "st2 = snd (projr (cycles literals 2 c0))" using c2 by simp
  have st3: "st3 = snd (projr (cycles literals 3 c0))" using c3 by simp
  have h1: "status st1 = RUNTIME_STATUS_RUNNING" "cur_code st1 = Some (''if'', [''1'', ''>'', ''0''])"
    and d1: "ifs st1 = 1"
    unfolding st1 c0_def by (simp_all add: run_defs)
  have h2: "status st2 = RUNTIME_STATUS_RUNNING"
    "cur_code st2 = Some (''set'', [''numeric'', ''y'', ''1''])"
    and d2: "ifs st2 = 2" and n2: "namespace st2 ''y'' = None"
    unfolding st2 c0_def by (simp_all add: run_defs eval_nat_numeral)
  have h3: "status st3 = RUNTIME_STATUS_RUNNING" "cur_code st3 = Some (''endif'', [])"
    and d3: "ifs st3 = 2"
    unfolding st3 c0_def by (simp_all add: run_defs eval_nat_numeral)
  have l: "lower ''if'' = ''if''" "lower ''set'' = ''set''" "lower ''endif'' = ''endif''"
    by (simp_all add: lower_def lower_char_def)
  from C3_skip_depth [OF h1, of literals s1] d1 l
  have r1: "cycle literals (s1, st1) = Inr (advance s1 (st1\<lparr>ifs := ifs st1 + 1\<rparr>))" by simp
  from C3_skip_depth [OF h2, of literals s2] d2 l
  have r2: "cycle literals (s2, st2) = Inr (advance s2 st2)" by simp
  from C3_skip_depth [OF h3, of literals s3] d3 l
  have r3: "cycle literals (s3, st3) =
              Inr (advance s3 (st3\<lparr>ifs := (if ifs st3 \<noteq> 0 then ifs st3 - 1 else 0)\<rparr>))" by simp
  show ?thesis
    unfolding c0_def [symmetric] c1 c2 c3 r1 r2 r3
    by (simp add: d1 d3 n2 advance_def split: prod.splits)
qed

section \<open>C8: a mismatched \<open>set\<close> keeps the old binding\<close>

text \<open>
  Claim C8. In the Executing state, \<open>set numeric x v\<close> with a valid name replaces the
  binding of \<open>x\<close> only when the literal \<open>v\<close> is a number (and nothing follows it): the
  new binding is then a Numeric variable holding that number. When \<open>v\<close> is not a number
  the instruction reports \<open>TypeException\<close>, the status becomes Error and the namespace is
  untouched. So after \<open>set numeric x 5\<close> and \<open>set numeric x foo\<close> the second \<open>set\<close>
  has failed with \<open>TypeException\<close> (at line 3) and \<open>x\<close> is still the Numeric variable
  with value 5.
\<close>

theorem C8_set_numeric:
  assumes "status st = RUNTIME_STATUS_RUNNING" and "ifs st = 0"
    and "cur_code st = Some (''set'', ''numeric'' # x # v # texts)"
    and "requireIdentifier x"
  shows "cycle P (s, st) =
           Inr (advance s
             (case requireReal P v of
                None \<Rightarrow> st\<lparr>stdout := stdout st @ [Diagnostic ''TypeException'' (cur_lineno st)],
                            status := RUNTIME_STATUS_ERROR\<rparr>
              | Some n \<Rightarrow>
                  if texts \<noteq> []
                  then st\<lparr>stdout := stdout st @ [Diagnostic ''ArgumentException'' (cur_lineno st)],
                          status := RUNTIME_STATUS_ERROR\<rparr>
                  else st\<lparr>namespace := (namespace st)(x \<mapsto>
                          \<lparr>v_name = x, v_type = VARIABLE_NUMERIC, v_value = n\<rparr>)\<rparr>))
       \<and> namespace (final (Seta_run literals
            (unlines [''SETA-SOC 1.0'', ''set numeric x 5'', ''set numeric x foo'']) [])) ''x''
           = Some \<lparr>v_name = ''x'', v_type = VARIABLE_NUMERIC, v_value = PInt 5\<rparr>
       \<and> stdout (final (Seta_run literals
            (unlines [''SETA-SOC 1.0'', ''set numeric x 5'', ''set numeric x foo'']) []))
           = [Diagnostic ''TypeException'' 3]
       \<and> status (final (Seta_run literals
            (unlines [''SETA-SOC 1.0'', ''set numeric x 5'', ''set numeric x foo'']) []))
           = RUNTIME_STATUS_ERROR"
proof -
  have num: "\<And>n. requireReal P v = Some n \<Longrightarrow> \<not> is_str n"
  proof -
    fix n assume "requireReal P v = Some n"
    then have "is_int n \<or> is_float n"
      by (auto simp: requireReal_def split: option.splits if_splits)
    then show "\<not> is_str n" by (cases n) auto
  qed
  have a: "cycle P (s, st) =
           Inr (advance s
             (case requireReal P v of
                None \<Rightarrow> st\<lparr>stdout := stdout st @ [Diagnostic ''TypeException'' (cur_lineno st)],
                            status := RUNTIME_STATUS_ERROR\<rparr>
              | Some n \<Rightarrow>
                  if texts \<noteq> []
                  then st\<lparr>stdout := stdout st @ [Diagnostic ''ArgumentException'' (cur_lineno st)],
                          status := RUNTIME_STATUS_ERROR\<rparr>
                  else st\<lparr>namespace := (namespace st)(x \<mapsto>
                          \<lparr>v_name = x, v_type = VARIABLE_NUMERIC, v_value = n\<rparr>)\<rparr>))"
    using assms num
    by (auto simp: cycle_def lower_def lower_char_def com_set_def guarded_def error_here_def
          error_def Variable_set_def Variable_def NamespaceInput_def split: option.splits)
  have b: "namespace (final (Seta_run literals
            (unlines [''SETA-SOC 1.0'', ''set numeric x 5'', ''set numeric x foo'']) [])) ''x''
           = Some \<lparr>v_name = ''x'', v_type = VARIABLE_NUMERIC, v_value = PInt 5\<rparr>"
    by (simp add: run_defs run.simps)
  have c: "stdout (final (Seta_run literals
            (unlines [''SETA-SOC 1.0'', ''set numeric x 5'', ''set numeric x foo'']) []))
           = [Diagnostic ''TypeException'' 3]"
    by (simp add: run_defs run.simps)
  have d: "status (final (Seta_run literals
            (unlines [''SETA-SOC 1.0'', ''set numeric x 5'', ''set numeric x foo'']) []))
           = RUNTIME_STATUS_ERROR"
    by (simp add: run_defs run.simps)
  from a b c d show ?thesis by blast
qed

text \<open>The general part at the second instruction of that program.\<close>

theorem C8_set_numeric_witness:
  "map_option v_value (namespace (snd (projr (cycle literals (projr (cycles literals 1
      (Seta literals (unlines [''SETA-SOC 1.0'', ''set numeric x 5'', ''set numeric x foo'']) []))))))
      ''x'') = Some (PInt 5)
   \<and> stdout (snd (projr (cycle literals (projr (cycles literals 1
      (Seta literals (unlines [''SETA-SOC 1.0'', ''set numeric x 5'', ''set numeric x foo'']) []))))))
     = [Diagnostic ''TypeException'' 3]"
proof -
  define c0 where "c0 = Seta literals
      (unlines [''SETA-SOC 1.0'', ''set numeric x 5'', ''set numeric x foo'']) []"
  obtain s1 st1 where c1: "projr (cycles literals 1 c0) = (s1, st1)"
    by (cases "projr (cycles literals 1 c0)")
  have st1: "st1 = snd (projr (cycles literals 1 c0))" using c1 by simp
  have h: "status st1 = RUNTIME_STATUS_RUNNING" "ifs st1 = 0"
    "cur_code st1 = Some (''set'', ''numeric'' # ''x'' # ''foo'' # [])"
    and o: "stdout st1 = []" "cur_lineno st1 = 3"
      "namespace st1 ''x'' = Some \<lparr>v_name = ''x'', v_type = VARIABLE_NUMERIC, v_value = PInt 5\<rparr>"
    unfolding st1 c0_def by (simp_all add: run_defs)
  have i: "requireIdentifier ''x''" by (simp add: requireIdentifier_def ident_char_def)
  have r: "requireReal literals ''foo'' = None" by (simp add: run_defs)
  from C8_set_numeric [OF h i, of literals s1]
  have "cycle literals (s1, st1) =
          Inr (advance s1 (st1\<lparr>stdout := stdout st1 @ [Diagnostic ''TypeException'' (cur_lineno st1)],
                              status := RUNTIME_STATUS_ERROR\<rparr>))"
    by (simp add: r)
  then show ?thesis
    unfolding c0_def [symmetric] c1 by (simp add: o advance_def split: prod.splits)
qed

section \<open>C10: a failed \<open>load\<close> leaves the pointer alone\<close>

text \<open>
  Claim C10. In the Executing state, a \<open>load\<close> of one or two tokens whose package is
  unknown, or whose object is unknown in the package (the package is \<open>builtins\<close> when one
  token is given), reports \<open>PackageException\<close> and changes nothing but the output and the
  status: the pointer register is what it was, so a later \<open>call\<close> invokes the target it
  would have invoked before the failed \<open>load\<close>. In a fresh runtime that target is the
  null-pointer handler.
\<close>

theorem C10_failed_load:
  assumes "status st = RUNTIME_STATUS_RUNNING" and "ifs st = 0"
    and "cur_code st = Some (''load'', args)"
    and "(args = [ident] \<and> pk = ''builtins'') \<or> args = [pk, ident]"
    and "(case packages st pk of None \<Rightarrow> True | Some pack \<Rightarrow> pack ident = None)"
  shows "com_load args st = (None, error_here ''PackageException'' st)
       \<and> cycle P (s, st) = Inr (advance s (error_here ''PackageException'' st))
       \<and> ptr (snd (advance s (error_here ''PackageException'' st))) = ptr st
       \<and> com_call P cargs (error_here ''PackageException'' st) =
           (case ptr st of
              None \<Rightarrow> (None, error_here ''NullPointerException'' (error_here ''PackageException'' st))
            | Some obj \<Rightarrow> invoke P obj cargs (error_here ''PackageException'' st))
       \<and> ptr (SetaRuntime inp) = Some NullPointerTraceback"
proof -
  have l: "com_load args st = (None, error_here ''PackageException'' st)"
    using assms(4,5) by (auto simp: com_load_def PackageSearch_def split: option.splits)
  have c: "cycle P (s, st) = Inr (advance s (error_here ''PackageException'' st))"
    using assms(1-3) l by (simp add: cycle_def lower_def lower_char_def guarded_def)
  have p: "ptr (snd (advance s (error_here ''PackageException'' st))) = ptr st"
    by (simp add: advance_def error_here_def error_def split: prod.splits)
  have k: "com_call P cargs (error_here ''PackageException'' st) =
           (case ptr st of
              None \<Rightarrow> (None, error_here ''NullPointerException'' (error_here ''PackageException'' st))
            | Some obj \<Rightarrow> invoke P obj cargs (error_here ''PackageException'' st))"
  proof -
    have "ptr (error_here ''PackageException'' st) = ptr st"
      by (simp add: error_here_def error_def)
    then show ?thesis by (simp add: com_call_def)
  qed
  have i: "ptr (SetaRuntime inp) = Some NullPointerTraceback"
    by (simp add: SetaRuntime_def)
  from l c p k i show ?thesis by blast
qed

text \<open>The theorem at two failing loads: an unknown object after \<open>load display\<close> has
  succeeded (the pointer stays at \<open>display\<close>), and an unknown package in a fresh runtime
  (the pointer stays at the null-pointer handler).\<close>

theorem C10_failed_load_witness:
  "ptr (snd (projr (cycle literals (projr (cycles literals 1
      (Seta literals (unlines [''SETA-SOC 1.0'', ''load display'', ''load builtins nothing'']) []))))))
     = Some display
   \<and> ptr (snd (projr (cycle literals
      (Seta literals (unlines [''SETA-SOC 1.0'', ''load nowhere display'']) []))))
     = Some NullPointerTraceback"
proof -
  define c0 where "c0 = Seta literals
      (unlines [''SETA-SOC 1.0'', ''load display'', ''load builtins nothing'']) []"
  define d0 where "d0 = Seta literals (unlines [''SETA-SOC 1.0'', ''load nowhere display'']) []"
  obtain s1 st1 where c1: "projr (cycles literals 1 c0) = (s1, st1)"
    by (cases "projr (cycles literals 1 c0)")
  obtain s2 st2 where d1: "d0 = (s2, st2)" by (cases d0)
  have st1: "st1 = snd (projr (cycles literals 1 c0))" using c1 by simp
  have st2: "st2 = snd d0" using d1 by simp
  have h: "status st1 = RUNTIME_STATUS_RUNNING" "ifs st1 = 0"
    "cur_code st1 = Some (''load'', [''builtins'', ''nothing''])"
    and a: "([''builtins'', ''nothing''] = [''nothing''] \<and> ''builtins'' = ''builtins'')
            \<or> [''builtins'', ''nothing''] = [''builtins'', ''nothing'']"
    and m: "(case packages st1 ''builtins'' of None \<Rightarrow> True | Some pack \<Rightarrow> pack ''nothing'' = None)"
    and p1: "ptr st1 = Some display"
    unfolding st1 c0_def by (simp_all add: run_defs)
  have g: "status st2 = RUNTIME_STATUS_RUNNING" "ifs st2 = 0"
    "cur_code st2 = Some (''load'', [''nowhere'', ''display''])"
    and b: "([''nowhere'', ''display''] = [''display''] \<and> ''nowhere'' = ''builtins'')
            \<or> [''nowhere'', ''display''] = [''nowhere'', ''display'']"
    and n: "(case packages st2 ''nowhere'' of None \<Rightarrow> True | Some pack \<Rightarrow> pack ''display'' = None)"
    and p2: "ptr st2 = Some NullPointerTraceback"
    unfolding st2 d0_def by (simp_all add: run_defs)
  from C10_failed_load [OF h a m, of literals s1] C10_failed_load [OF g b n, of literals s2]
  show ?thesis
    unfolding c0_def [symmetric] d0_def [symmetric] c1 d1 by (simp add: p1 p2)
qed

section \<open>C9: identifiers\<close>

text \<open>The two letter ranges that \<open>requireIdentifier\<close> tests by character order are the
  two ASCII alphabets.\<close>

lemma inj_of_char_nat: "inj (of_char :: char \<Rightarrow> nat)"
  by (rule injI) simp

lemma lower_codes: "map of_char ''abcdefghijklmnopqrstuvwxyz'' = [97..<123::nat]"
  by (simp add: upt_rec_numeral)

lemma upper_codes: "map of_char ''ABCDEFGHIJKLMNOPQRSTUVWXYZ'' = [65..<91::nat]"
  by (simp add: upt_rec_numeral)

lemma in_lower:
  "(97 \<le> (of_char c :: nat) \<and> (of_char c :: nat) \<le> 122) \<longleftrightarrow>
     c \<in> set ''abcdefghijklmnopqrstuvwxyz''"
proof -
  have "c \<in> set ''abcdefghijklmnopqrstuvwxyz'' \<longleftrightarrow>
        (of_char c :: nat) \<in> of_char ` set ''abcdefghijklmnopqrstuvwxyz''"
    by (rule inj_image_mem_iff [OF inj_of_char_nat, symmetric])
  also have "of_char ` set ''abcdefghijklmnopqrstuvwxyz'' = set [97..<123::nat]"
    unfolding lower_codes [symmetric] set_map ..
  also have "(of_char c :: nat) \<in> set [97..<123::nat] \<longleftrightarrow>
        97 \<le> (of_char c :: nat) \<and> (of_char c :: nat) \<le> 122"
    unfolding set_upt by auto
  finally show ?thesis by simp
qed

lemma in_upper:
  "(65 \<le> (of_char c :: nat) \<and> (of_char c :: nat) \<le> 90) \<longleftrightarrow>
     c \<in> set ''ABCDEFGHIJKLMNOPQRSTUVWXYZ''"
proof -
  have "c \<in> set ''ABCDEFGHIJKLMNOPQRSTUVWXYZ'' \<longleftrightarrow>
        (of_char c :: nat) \<in> of_char ` set ''ABCDEFGHIJKLMNOPQRSTUVWXYZ''"
    by (rule inj_image_mem_iff [OF inj_of_char_nat, symmetric])
  also have "of_char ` set ''ABCDEFGHIJKLMNOPQRSTUVWXYZ'' = set [65..<91::nat]"
    unfolding upper_codes [symmetric] set_map ..
  also have "(of_char c :: nat) \<in> set [65..<91::nat] \<longleftrightarrow>
        65 \<le> (of_char c :: nat) \<and> (of_char c :: nat) \<le> 90"
    unfolding set_upt by auto
  finally show ?thesis by simp
qed

lemma ident_char_iff:
  "ident_char c \<longleftrightarrow>
     c \<in> set ''abcdefghijklmnopqrstuvwxyz'' \<or> c \<in> set ''ABCDEFGHIJKLMNOPQRSTUVWXYZ''
     \<or> c \<in> set ''0123456789_#''"
  unfolding ident_char_def Let_def in_lower in_upper ..

lemma ident_chars_iff: "ident_chars i \<longleftrightarrow> (\<forall>c \<in> set i. ident_char c)"
  by (induction i) auto

text \<open>
  Claim C9 lists \<open>#tmp_1\<close> among the accepted identifiers. \<open>requireIdentifier\<close>
  rejects it: its last test refuses a first character that is a digit or \<open>#\<close>, as the
  grammar in the same claim says.
\<close>

theorem C9_hash_first_counterexample:
  "\<not> requireIdentifier ''#tmp_1''"
  by (simp add: requireIdentifier_def ident_char_def)

text \<open>
  C9, as amended: identifier validation accepts \<open>a_9\<close> and rejects \<open>#tmp_1\<close>, \<open>9x\<close>,
  the empty string and \<open>a-b\<close>; in general it accepts exactly the non-empty texts whose
  characters are ASCII letters, digits, underscore or \<open>#\<close> and whose first character is
  neither a digit nor \<open>#\<close>.
\<close>

theorem C9_identifier_grammar:
  "requireIdentifier ''a_9'' \<and> \<not> requireIdentifier ''#tmp_1'' \<and> \<not> requireIdentifier ''9x''
   \<and> \<not> requireIdentifier [] \<and> \<not> requireIdentifier ''a-b''
   \<and> (requireIdentifier i \<longleftrightarrow>
        i \<noteq> []
        \<and> (\<forall>c \<in> set i. c \<in> set ''abcdefghijklmnopqrstuvwxyz''
                      \<or> c \<in> set ''ABCDEFGHIJKLMNOPQRSTUVWXYZ''
                      \<or> c \<in> set ''0123456789_#'')
        \<and> hd i \<notin> set ''0123456789#'')"
proof -
  have ex: "requireIdentifier ''a_9''" "\<not> requireIdentifier ''#tmp_1''"
    "\<not> requireIdentifier ''9x''" "\<not> requireIdentifier []" "\<not> requireIdentifier ''a-b''"
    by (simp_all add: requireIdentifier_def ident_char_def)
  have g: "requireIdentifier i \<longleftrightarrow>
        i \<noteq> []
        \<and> (\<forall>c \<in> set i. c \<in> set ''abcdefghijklmnopqrstuvwxyz''
                      \<or> c \<in> set ''ABCDEFGHIJKLMNOPQRSTUVWXYZ''
                      \<or> c \<in> set ''0123456789_#'')
        \<and> hd i \<notin> set ''0123456789#''"
    unfolding requireIdentifier_def ident_chars_iff ident_char_iff by auto
  from ex g show ?thesis by blast
qed

text \<open>The grammar decides two further texts: \<open>tmp_1\<close> is accepted, \<open>a b\<close> is not.\<close>

theorem C9_identifier_grammar_witness:
  "requireIdentifier ''tmp_1'' \<and> \<not> requireIdentifier ''a b''"
proof -
  have a: "''tmp_1'' \<noteq> []
        \<and> (\<forall>c \<in> set ''tmp_1''. c \<in> set ''abcdefghijklmnopqrstuvwxyz''
                      \<or> c \<in> set ''ABCDEFGHIJKLMNOPQRSTUVWXYZ''
                      \<or> c \<in> set ''0123456789_#'')
        \<and> hd ''tmp_1'' \<notin> set ''0123456789#''"
    by simp
  have b: "\<not> (''a b'' \<noteq> []
        \<and> (\<forall>c \<in> set ''a b''. c \<in> set ''abcdefghijklmnopqrstuvwxyz''
                      \<or> c \<in> set ''ABCDEFGHIJKLMNOPQRSTUVWXYZ''
                      \<or> c \<in> set ''0123456789_#'')
        \<and> hd ''a b'' \<notin> set ''0123456789#'')"
    by simp
  from C9_identifier_grammar [of "''tmp_1''"] a have 1: "requireIdentifier ''tmp_1''" by blast
  from C9_identifier_grammar [of "''a b''"] b have 2: "\<not> requireIdentifier ''a b''" by blast
  from 1 2 show ?thesis by blast
qed

section \<open>C5: the type guard of the arithmetic\<close>

text \<open>The helpers of class \<open>Operation\<close> do guard the kinds: a variable that is not
  numeric is refused with \<open>TypeException\<close> and no result.\<close>

lemma Operation_type_guard:
  assumes "v_type arg1 \<noteq> VARIABLE_NUMERIC \<or> v_type arg2 \<noteq> VARIABLE_NUMERIC"
  shows "Operation_add P arg1 arg2 st = (Inr PNone, error_here ''TypeException'' st)"
    and "Operation_sub P arg1 arg2 st = (Inr PNone, error_here ''TypeException'' st)"
    and "Operation_mul P arg1 arg2 st = (Inr PNone, error_here ''TypeException'' st)"
    and "Operation_div P arg1 arg2 st = (Inr PNone, error_here ''TypeException'' st)"
    and "Operation_power P arg1 arg2 st = (Inr PNone, error_here ''TypeException'' st)"
  using assms
  by (auto simp: Operation_add_def Operation_sub_def Operation_mul_def Operation_div_def
        Operation_power_def Operation_guard_def)

text \<open>
  Claim C5 says that \<open>calc\<close> reports \<open>TypeException\<close> and writes no result when an
  operand is not of Numeric kind, as the \<open>Operation\<close> helpers do. \<open>com_calc\<close> does not
  go through the helpers and has no such guard: it applies Python's operator to the
  resolved values. With \<open>s\<close> a constant string, \<open>calc add s 1 r\<close> raises Python's
  \<open>TypeError\<close>, which the dispatcher reports as \<open>ArgumentException\<close>; \<open>calc add s s r\<close>
  concatenates, stores the text in \<open>@AMS\<close>, creates \<open>r\<close> as a numeric variable without
  a value and reports \<open>ValueException\<close>. Neither reports \<open>TypeException\<close>.
\<close>

theorem C5_calc_without_type_guard:
  "stdout (final (Seta_run literals
      (unlines [''SETA-SOC 1.0'', ''set cstring s hello'', ''calc add s 1 r'']) []))
     = [Diagnostic ''ArgumentException'' 3]
   \<and> stdout (final (Seta_run literals
      (unlines [''SETA-SOC 1.0'', ''set cstring s hello'', ''calc add s s r'']) []))
     = [Diagnostic ''ValueException'' 3]
   \<and> ams (final (Seta_run literals
      (unlines [''SETA-SOC 1.0'', ''set cstring s hello'', ''calc add s s r'']) []))
     = PStr ''hellohello''
   \<and> namespace (final (Seta_run literals
      (unlines [''SETA-SOC 1.0'', ''set cstring s hello'', ''calc add s s r'']) [])) ''r''
     = Some \<lparr>v_name = ''r'', v_type = VARIABLE_NUMERIC, v_value = PNone\<rparr>"
  by (simp add: run_defs run.simps)

section \<open>C7: \<open>call\<close> before any \<open>load\<close>\<close>

text \<open>The handler that the pointer holds at start takes no argument.\<close>

lemma null_pointer_arity:
  assumes "ptr st = Some NullPointerTraceback"
  shows "com_call P args st =
           (if args = [] then (None, error_here ''NullPointerException'' st)
            else (Some TypeError, st))"
  using assms
  by (cases args) (simp_all add: com_call_def invoke_def B_NullPointerTraceback_def)

text \<open>
  Claim C7 says that \<open>call\<close> before any \<open>load\<close> reports \<open>NullPointerException\<close> for
  every argument list. It does for the empty list. With an argument, the call of the
  null-pointer handler raises \<open>TypeError\<close> for its arity, and the dispatcher reports
  \<open>ArgumentException\<close> instead.
\<close>

theorem C7_call_with_arguments:
  "stdout (final (Seta_run literals (unlines [''SETA-SOC 1.0'', ''call x'']) []))
     = [Diagnostic ''ArgumentException'' 2]
   \<and> stdout (final (Seta_run literals (unlines [''SETA-SOC 1.0'', ''call'']) []))
     = [Diagnostic ''NullPointerException'' 2]"
  by (simp add: run_defs run.simps)

section \<open>C6: the header precheck\<close>

text \<open>The result codes of \<open>precheck\<close>, by the shape of the first line: no line, wrong
  token count, wrong flag, a version that \<open>float\<close> refuses, a version above 1.0, and
  the passing header.\<close>

lemma precheck_codes:
  shows "readlines src = [] \<Longrightarrow>
           fst (precheck P \<lparr>text_lines = readlines src, pointer = 0\<rparr>) = 5"
    and "readlines src = line1 # rest \<Longrightarrow> line1 \<noteq> [] \<Longrightarrow>
           length (split_sp (butlast line1)) \<noteq> 2 \<Longrightarrow>
           fst (precheck P \<lparr>text_lines = readlines src, pointer = 0\<rparr>) = 4"
    and "readlines src = line1 # rest \<Longrightarrow> line1 \<noteq> [] \<Longrightarrow>
           split_sp (butlast line1) = [flag, version] \<Longrightarrow> flag \<noteq> ''SETA-SOC'' \<Longrightarrow>
           fst (precheck P \<lparr>text_lines = readlines src, pointer = 0\<rparr>) = 1"
    and "readlines src = line1 # rest \<Longrightarrow> line1 \<noteq> [] \<Longrightarrow>
           split_sp (butlast line1) = [''SETA-SOC'', version] \<Longrightarrow>
           py_float_str P version = None \<Longrightarrow>
           fst (precheck P \<lparr>text_lines = readlines src, pointer = 0\<rparr>) = 2"
    and "readlines src = line1 # rest \<Longrightarrow> line1 \<noteq> [] \<Longrightarrow>
           split_sp (butlast line1) = [''SETA-SOC'', version] \<Longrightarrow>
           py_float_str P version = Some x \<Longrightarrow> x > Seta_version \<Longrightarrow>
           fst (precheck P \<lparr>text_lines = readlines src, pointer = 0\<rparr>) = 3"
    and "readlines src = line1 # rest \<Longrightarrow> line1 \<noteq> [] \<Longrightarrow>
           split_sp (butlast line1) = [''SETA-SOC'', version] \<Longrightarrow>
           py_float_str P version = Some x \<Longrightarrow> x \<le> Seta_version \<Longrightarrow>
           fst (precheck P \<lparr>text_lines = readlines src, pointer = 0\<rparr>) = 0"
  by (simp_all add: precheck_def Let_def)

text \<open>A loop entered with a status other than Running is left at once.\<close>

lemma run_not_running:
  assumes "status st \<noteq> RUNTIME_STATUS_RUNNING"
  shows "run P (s, st) = (Exit, s, st)"
  using assms by (simp add: run.simps cycle_def)

text \<open>
  Claim C6 says that after a failed precheck subsequent instructions still execute. The
  report goes through \<open>SetaRuntime.error\<close>, which sets the status to Error, and the loop
  tests the status first: with the header \<open>SETA-SOC 99.0\<close> the instruction
  \<open>set numeric x 5\<close> is fetched and never executed.
\<close>

theorem C6_nothing_executes_counterexample:
  "namespace (final (Seta_run literals
      (unlines [''SETA-SOC 99.0'', ''set numeric x 5'']) [])) ''x'' = None
   \<and> cur_code (final (Seta_run literals
      (unlines [''SETA-SOC 99.0'', ''set numeric x 5'']) [])) = Some (''set'', [''numeric'', ''x'', ''5''])
   \<and> stdout (final (Seta_run literals
      (unlines [''SETA-SOC 99.0'', ''set numeric x 5'']) [])) = [Diagnostic ''PrecheckException'' 1]"
  by (simp add: run_defs run.simps)

text \<open>
  C6, as amended: for every source whose header fails validation (a non-zero precheck
  code: wrong flag, non-numeric version, version too high, wrong token count or empty
  input), exactly one \<open>PrecheckException\<close> diagnostic is reported at stream construction,
  at line 1; the stream is still constructed and readable (it holds the lines of the
  source, and the first instruction is fetched from it); the run is still entered, and it
  exits at its first status check without executing any instruction, the state being the
  one construction left.
\<close>

theorem C6_precheck:
  assumes "fst (precheck P \<lparr>text_lines = readlines src, pointer = 0\<rparr>) \<noteq> 0"
  shows "stdout (snd (Seta P src inp)) = [Diagnostic ''PrecheckException'' 1]
       \<and> status (snd (Seta P src inp)) = RUNTIME_STATUS_ERROR
       \<and> text_lines (fst (Seta P src inp)) = readlines src
       \<and> cur_code (snd (Seta P src inp)) =
           fst (instruction (snd (precheck P \<lparr>text_lines = readlines src, pointer = 0\<rparr>)))
       \<and> namespace (snd (Seta P src inp)) = Map.empty
       \<and> Seta_run P src inp = (Exit, Seta P src inp)"
proof -
  obtain code s0 where pc: "precheck P \<lparr>text_lines = readlines src, pointer = 0\<rparr> = (code, s0)"
    by (cases "precheck P \<lparr>text_lines = readlines src, pointer = 0\<rparr>")
  with assms have nz: "code \<noteq> 0" by simp
  have tl: "text_lines s0 = readlines src"
    using pc by (auto simp: precheck_def Let_def split: if_splits option.splits)
  obtain i s1 where ins: "instruction s0 = (i, s1)" by (cases "instruction s0")
  have tl1: "text_lines s1 = text_lines s0"
    using ins by (auto simp: instruction_def Let_def split: if_splits)
  have S: "Seta P src inp =
      (s1, (error ''PrecheckException'' 1 (SetaRuntime inp))\<lparr>cur_lineno := 2, cur_code := i\<rparr>)"
    using pc nz ins by (simp add: Seta_def SetaStringOperationCode_def setSupport_def)
  have st: "status (snd (Seta P src inp)) = RUNTIME_STATUS_ERROR"
    unfolding S by (simp add: error_def)
  have r: "Seta_run P src inp = (Exit, Seta P src inp)"
    unfolding Seta_run_def using run_not_running [of "snd (Seta P src inp)" P "fst (Seta P src inp)"] st
    by simp
  show ?thesis
    using r st unfolding S by (simp add: error_def SetaRuntime_def tl tl1 pc ins)
qed

text \<open>The theorem at a header with too high a version and at the empty source.\<close>

theorem C6_precheck_witness:
  "stdout (snd (Seta literals (unlines [''SETA-SOC 99.0'', ''set numeric x 5'']) []))
     = [Diagnostic ''PrecheckException'' 1]
   \<and> final (Seta_run literals [] []) = snd (Seta literals [] [])
   \<and> stdout (snd (Seta literals [] [])) = [Diagnostic ''PrecheckException'' 1]"
proof -
  have h: "fst (precheck literals
      \<lparr>text_lines = readlines (unlines [''SETA-SOC 99.0'', ''set numeric x 5'']), pointer = 0\<rparr>) \<noteq> 0"
    by (simp add: run_defs)
  have e: "fst (precheck literals \<lparr>text_lines = readlines [], pointer = 0\<rparr>) \<noteq> 0"
    by (simp add: run_defs)
  from C6_precheck [OF h, of "[]"] C6_precheck [OF e, of "[]"]
  show ?thesis by (simp add: final_def)
qed

section \<open>C4: end of stream inside an open block\<close>

text \<open>
  Every handler and builtin changes the status only through \<open>error\<close>, which prints a
  diagnostic, and nothing is ever removed from the output. So a runtime that is accounted
  for (still running, or with a diagnostic on the output) stays so through every cycle.
\<close>

lemma accounted_error [simp]: "accounted (error c l st)"
  by (simp add: accounted_def diagnostics_def error_def)

lemma accounted_error_here [simp]: "accounted (error_here c st)"
  by (simp add: error_here_def)

lemma accounted_frame:
  assumes "accounted st" and "status st' = status st" and "diagnostics st' = diagnostics st"
  shows "accounted st'"
  using assms by (simp add: accounted_def)

lemma Variable_set_accounted:
  assumes "Variable_set var v st = (ok, var', st')" and "accounted st"
  shows "accounted st'"
  using assms by (auto simp: Variable_set_def split: if_splits)

lemma accounted_namespace [simp]: "accounted (st\<lparr>namespace := m\<rparr>) = accounted st"
  by (simp add: accounted_def diagnostics_def)

lemma accounted_ams [simp]: "accounted (st\<lparr>ams := m\<rparr>) = accounted st"
  by (simp add: accounted_def diagnostics_def)

lemma accounted_ifs [simp]: "accounted (st\<lparr>ifs := m\<rparr>) = accounted st"
  by (simp add: accounted_def diagnostics_def)

lemma accounted_ptr [simp]: "accounted (st\<lparr>ptr := m\<rparr>) = accounted st"
  by (simp add: accounted_def diagnostics_def)

lemma accounted_current [simp]:
  "accounted (st\<lparr>cur_lineno := l, cur_code := i\<rparr>) = accounted st"
  by (simp add: accounted_def diagnostics_def)

lemma accounted_printed [simp]:
  "accounted (st\<lparr>stdout := stdout st @ [Printed v]\<rparr>) = accounted st"
  "accounted (st\<lparr>stdout := stdout st @ [BreakpointDump l]\<rparr>) = accounted st"
  by (simp_all add: accounted_def diagnostics_def)

lemma com_set_accounted:
  assumes "com_set P args st = (e, st')" and "accounted st"
  shows "accounted st'"
  using assms
  by (auto simp: com_set_def NamespaceInput_def Let_def
      split: list.splits if_splits option.splits prod.splits dest: Variable_set_accounted)

lemma calc_store_accounted:
  assumes "accounted st" shows "accounted (calc_store r q st)"
  using assms
  by (auto simp: calc_store_def NamespaceInput_def Let_def
      split: option.splits prod.splits dest: Variable_set_accounted)

lemma com_calc_accounted:
  assumes "com_calc P args st = (e, st')" and "accounted st"
  shows "accounted st'"
  using assms
  by (auto simp: com_calc_def calc_store_accounted
      split: list.splits if_splits option.splits sum.splits)

lemma com_load_accounted:
  assumes "com_load args st = (e, st')" and "accounted st"
  shows "accounted st'"
  using assms
  by (auto simp: com_load_def split: list.splits if_splits option.splits)

lemma com_emp_accounted:
  assumes "com_emp args st = (e, st')" and "accounted st"
  shows "accounted st'"
  using assms by (auto simp: com_emp_def split: list.splits)

lemma com_endif_accounted:
  assumes "com_endif args st = (e, st')" and "accounted st"
  shows "accounted st'"
  using assms by (auto simp: com_endif_def split: list.splits)

lemma com_if_accounted:
  assumes "com_if P args st = (e, st')" and "accounted st"
  shows "accounted st'"
  using assms
  by (auto simp: com_if_def split: list.splits if_splits option.splits sum.splits)


lemma nInput_loop_diagnostics:
  assumes "nInput_loop P msg inp out = (r, inp', out')"
  shows "filter is_diagnostic out' = filter is_diagnostic out"
  using assms
  by (induction inp arbitrary: out) (auto split: option.splits)

lemma accounted_io:
  assumes "filter is_diagnostic out = filter is_diagnostic (stdout st)"
  shows "accounted (st\<lparr>stdin := inp, stdout := out\<rparr>) = accounted st"
  using assms by (simp add: accounted_def diagnostics_def)

lemma B_NullPointerTraceback_accounted:
  assumes "B_NullPointerTraceback args st = (e, st')" and "accounted st"
  shows "accounted st'"
  using assms by (auto simp: B_NullPointerTraceback_def split: list.splits)

lemma B_display_accounted:
  assumes "B_display args st = (e, st')" and "accounted st"
  shows "accounted st'"
  using assms by (auto simp: B_display_def split: list.splits if_splits option.splits)

lemma B_wrap_accounted:
  assumes "B_wrap P args st = (e, st')" and "accounted st"
  shows "accounted st'"
  using assms by (auto simp: B_wrap_def split: list.splits if_splits option.splits)

lemma B_breakpoint_accounted:
  assumes "B_breakpoint args st = (e, st')" and "accounted st"
  shows "accounted st'"
  using assms by (auto simp: B_breakpoint_def split: list.splits)

lemma B_ftc_accounted:
  assumes "B_ftc P args st = (e, st')" and "accounted st"
  shows "accounted st'"
  using assms
  by (auto simp: B_ftc_def Let_def
      split: list.splits if_splits option.splits sum.splits prod.splits
      dest: Variable_set_accounted)

lemma B_nInput_accounted:
  assumes "B_nInput P args st = (e, st')" and "accounted st"
  shows "accounted st'"
  using assms
  by (auto simp: B_nInput_def Let_def accounted_io
      split: list.splits if_splits option.splits sum.splits prod.splits
      dest!: nInput_loop_diagnostics dest: Variable_set_accounted)

lemma com_call_accounted:
  assumes "com_call P args st = (e, st')" and "accounted st"
  shows "accounted st'"
  using assms
  by (auto simp: com_call_def invoke_def split: option.splits object.splits
      dest: B_NullPointerTraceback_accounted B_display_accounted B_wrap_accounted
        B_breakpoint_accounted B_ftc_accounted B_nInput_accounted)


lemma advance_accounted:
  assumes "advance s st = (s', st')"
  shows "accounted st' = accounted st" and "ifs st' = ifs st"
  using assms by (auto simp: advance_def split: prod.splits)

lemma guarded_accounted:
  assumes "guarded s (e, st1) = Inr (s', st')" and "accounted st1"
  shows "accounted st'"
  using assms
  by (auto simp: guarded_def split: option.splits pyexc.splits dest!: advance_accounted(1))

lemma guarded_result_accounted:
  assumes "guarded s r = Inr (s', st')" and "accounted (snd r)"
  shows "accounted st'"
  using assms by (cases r) (auto dest: guarded_accounted)

lemma guarded_outcome:
  assumes "guarded s r = Inl (oc, s', st')"
  shows "oc \<noteq> Exit"
  using assms by (auto simp: guarded_def split: prod.splits option.splits pyexc.splits)

lemma cycle_accounted:
  assumes "cycle P (s, st) = Inr (s', st')" and "accounted st"
  shows "accounted st'"
proof -
  from assms(1) obtain com args where code: "cur_code st = Some (com, args)"
    and run: "status st = RUNTIME_STATUS_RUNNING"
    by (auto simp: cycle_def split: if_splits option.splits)
  consider (k_endif) "lower com = ''endif''"
    | (k_skip) "lower com \<noteq> ''endif''" "ifs st \<noteq> 0"
    | (k_set) "lower com \<noteq> ''endif''" "ifs st = 0" "lower com = ''set''"
    | (k_calc) "lower com \<noteq> ''endif''" "ifs st = 0" "lower com = ''calc''"
    | (k_load) "lower com \<noteq> ''endif''" "ifs st = 0" "lower com = ''load''"
    | (k_emp) "lower com \<noteq> ''endif''" "ifs st = 0" "lower com = ''emp''"
    | (k_if) "lower com \<noteq> ''endif''" "ifs st = 0" "lower com = ''if''"
    | (k_call) "lower com \<noteq> ''endif''" "ifs st = 0" "lower com = ''call''"
    | (k_other) "lower com \<noteq> ''endif''" "ifs st = 0" "lower com \<noteq> ''set''"
        "lower com \<noteq> ''calc''" "lower com \<noteq> ''load''" "lower com \<noteq> ''emp''"
        "lower com \<noteq> ''if''" "lower com \<noteq> ''call''"
    by blast
  then show ?thesis
  proof cases
    case k_endif
    with assms code run have "guarded s (com_endif args st) = Inr (s', st')"
      by (simp add: cycle_def)
    from guarded_result_accounted [OF this com_endif_accounted [OF prod.collapse [symmetric] assms(2)]]
    show ?thesis .
  next
    case k_skip
    with assms code run show ?thesis
      by (auto simp: cycle_def split: if_splits dest!: advance_accounted(1))
  next
    case k_set
    with assms code run have "guarded s (com_set P args st) = Inr (s', st')"
      by (simp add: cycle_def)
    from guarded_result_accounted [OF this com_set_accounted [OF prod.collapse [symmetric] assms(2)]]
    show ?thesis .
  next
    case k_calc
    with assms code run have "guarded s (com_calc P args st) = Inr (s', st')"
      by (simp add: cycle_def)
    from guarded_result_accounted [OF this com_calc_accounted [OF prod.collapse [symmetric] assms(2)]]
    show ?thesis .
  next
    case k_load
    with assms code run have "guarded s (com_load args st) = Inr (s', st')"
      by (simp add: cycle_def)
    from guarded_result_accounted [OF this com_load_accounted [OF prod.collapse [symmetric] assms(2)]]
    show ?thesis .
  next
    case k_emp
    with assms code run have "guarded s (com_emp args st) = Inr (s', st')"
      by (simp add: cycle_def)
    from guarded_result_accounted [OF this com_emp_accounted [OF prod.collapse [symmetric] assms(2)]]
    show ?thesis .
  next
    case k_if
    with assms code run have "guarded s (com_if P args st) = Inr (s', st')"
      by (simp add: cycle_def)
    from guarded_result_accounted [OF this com_if_accounted [OF prod.collapse [symmetric] assms(2)]]
    show ?thesis .
  next
    case k_call
    with assms code run have "guarded s (com_call P args st) = Inr (s', st')"
      by (simp add: cycle_def)
    from guarded_result_accounted [OF this com_call_accounted [OF prod.collapse [symmetric] assms(2)]]
    show ?thesis .
  next
    case k_other
    with assms code run show ?thesis
      by (auto simp: cycle_def dest!: advance_accounted(1))
  qed
qed

lemma cycle_exit:
  assumes "cycle P (s, st) = Inl (Exit, s', st')" and "accounted st" and "ifs st' \<noteq> 0"
  shows "diagnostics st' \<noteq> []"
proof (cases "status st = RUNTIME_STATUS_RUNNING")
  case False
  with assms show ?thesis by (auto simp: cycle_def accounted_def)
next
  case True
  show ?thesis
  proof (cases "cur_code st")
    case None
    with True assms(1,3) show ?thesis
      by (auto simp: cycle_def error_here_def error_def diagnostics_def split: if_splits)
  next
    case (Some i)
    obtain com args where i: "i = (com, args)" by (cases i)
    from assms(1) True Some i have False
      by (auto simp: cycle_def split: if_splits dest: guarded_outcome)
    then show ?thesis ..
  qed
qed

lemma run_exit:
  assumes "run P c = (Exit, s', st')" and "accounted (snd c)" and "ifs st' \<noteq> 0"
  shows "diagnostics st' \<noteq> []"
  using assms
proof (induction P c rule: run.induct)
  case (1 P c)
  obtain s st where c: "c = (s, st)" by (cases c)
  show ?case
  proof (cases "cycle P c")
    case (Inl r)
    with "1.prems"(1) have "r = (Exit, s', st')" by (simp add: run.simps)
    with Inl c "1.prems"(2,3) show ?thesis by (auto dest: cycle_exit)
  next
    case (Inr c')
    obtain s1 st1 where c': "c' = (s1, st1)" by (cases c')
    from Inr "1.prems"(1) have r: "run P c' = (Exit, s', st')" by (simp add: run.simps)
    from Inr c c' "1.prems"(2) have "accounted (snd c')" by (auto dest: cycle_accounted)
    with "1.IH" [OF Inr r] "1.prems"(3) show ?thesis by blast
  qed
qed

lemma Seta_accounted: "accounted (snd (Seta P src inp))"
  by (auto simp: Seta_def SetaStringOperationCode_def setSupport_def SetaRuntime_def
      accounted_def diagnostics_def error_def split: prod.splits)

text \<open>
  Claim C4 says that a program whose stream reaches End-Of-Stream while the skip depth is
  positive always gets \<open>BlockException\<close>. The loop tests the status before it tests for
  the end of the stream: after \<open>if 1 < 0\<close> the line \<open>endif x\<close> is executed although
  skipped over, fails on its argument with \<open>ArgumentException\<close> and leaves the depth at
  1; the stream is then exhausted, and the run exits on the status without
  \<open>BlockException\<close>.
\<close>

theorem C4_earlier_error_counterexample:
  "ifs (final (Seta_run literals (unlines [''SETA-SOC 1.0'', ''if 1 < 0'', ''endif x'']) [])) = 1
   \<and> cur_code (final (Seta_run literals
        (unlines [''SETA-SOC 1.0'', ''if 1 < 0'', ''endif x'']) [])) = None
   \<and> stdout (final (Seta_run literals
        (unlines [''SETA-SOC 1.0'', ''if 1 < 0'', ''endif x'']) []))
       = [Diagnostic ''ArgumentException'' 3]"
  by (simp add: run_defs run.simps)

text \<open>
  C4, as amended: whenever the dispatcher, still Running, finds End-Of-Stream while the
  skip depth is not zero, it reports \<open>BlockException\<close> and terminates, the status
  becoming Error; and every program that ends by exit with a skip depth that is not zero
  has reported at least one diagnostic, so it never ends silently (the diagnostic is
  \<open>BlockException\<close> unless an earlier one had already stopped the run).
\<close>

theorem C4_unterminated_block:
  "(status st = RUNTIME_STATUS_RUNNING \<and> cur_code st = None \<and> ifs st \<noteq> 0 \<longrightarrow>
      run P (s, st) =
        (Exit, s, st\<lparr>stdout := stdout st @ [Diagnostic ''BlockException'' (cur_lineno st)],
                      status := RUNTIME_STATUS_ERROR\<rparr>))
   \<and> (Seta_run P src inp = (Exit, s', st') \<and> ifs st' \<noteq> 0 \<longrightarrow> diagnostics st' \<noteq> [])"
proof -
  have a: "status st = RUNTIME_STATUS_RUNNING \<and> cur_code st = None \<and> ifs st \<noteq> 0 \<longrightarrow>
      run P (s, st) =
        (Exit, s, st\<lparr>stdout := stdout st @ [Diagnostic ''BlockException'' (cur_lineno st)],
                      status := RUNTIME_STATUS_ERROR\<rparr>)"
    by (simp add: run.simps cycle_def error_here_def error_def)
  have b: "Seta_run P src inp = (Exit, s', st') \<and> ifs st' \<noteq> 0 \<longrightarrow> diagnostics st' \<noteq> []"
    unfolding Seta_run_def using run_exit [OF _ Seta_accounted] by blast
  from a b show ?thesis by blast
qed

text \<open>The first part at the end of the program \<open>if 1 < 0\<close>, the second on the program
  \<open>if 1 < 0\<close>, \<open>endif x\<close>.\<close>

theorem C4_unterminated_block_witness:
  "stdout (final (run literals (projr (cycles literals 1
      (Seta literals (unlines [''SETA-SOC 1.0'', ''if 1 < 0'']) [])))))
     = [Diagnostic ''BlockException'' 3]
   \<and> diagnostics (final (Seta_run literals
      (unlines [''SETA-SOC 1.0'', ''if 1 < 0'', ''endif x'']) [])) \<noteq> []"
proof -
  define c0 where "c0 = Seta literals (unlines [''SETA-SOC 1.0'', ''if 1 < 0'']) []"
  define r where "r = Seta_run literals (unlines [''SETA-SOC 1.0'', ''if 1 < 0'', ''endif x'']) []"
  obtain s1 st1 where c1: "projr (cycles literals 1 c0) = (s1, st1)"
    by (cases "projr (cycles literals 1 c0)")
  have st1: "st1 = snd (projr (cycles literals 1 c0))" using c1 by simp
  have h: "status st1 = RUNTIME_STATUS_RUNNING \<and> cur_code st1 = None \<and> ifs st1 \<noteq> 0"
    and o: "stdout st1 = []" "cur_lineno st1 = 3"
    unfolding st1 c0_def by (simp_all add: run_defs)
  have e: "fst r = Exit" and d: "ifs (snd (snd r)) \<noteq> 0"
    unfolding r_def by (simp_all add: run_defs run.simps)
  then have k: "r = (Exit, fst (snd r), snd (snd r)) \<and> ifs (snd (snd r)) \<noteq> 0"
    by (metis prod.collapse)
  from C4_unterminated_block [of st1 literals s1
      "unlines [''SETA-SOC 1.0'', ''if 1 < 0'', ''endif x'']" "[]" "fst (snd r)" "snd (snd r)"]
    h k
  have "run literals (s1, st1) =
          (Exit, s1, st1\<lparr>stdout := stdout st1 @ [Diagnostic ''BlockException'' (cur_lineno st1)],
                          status := RUNTIME_STATUS_ERROR\<rparr>)"
    and "diagnostics (snd (snd r)) \<noteq> []"
    unfolding r_def [symmetric] by blast+
  then show ?thesis
    unfolding c0_def [symmetric] r_def [symmetric] c1 by (simp add: o final_def)
qed

end
